theory Spec2Isabelle
  imports Complex_Main "HOL-Library.AList"
begin

section \<open>JavaScript values\<close>

text \<open>
  A JavaScript number is NaN, an infinity or a finite binary64 value; a finite value is
  represented by the rational number it denotes (so \<open>-0\<close> and \<open>0\<close> coincide, as they
  do for \<open>===\<close>, \<open><=\<close> and truthiness). Objects are property lists in insertion order.
\<close>

datatype jsnum = NaN | PInf | NInf | Fin rat

datatype jsval =
    JUndefined
  | JNull
  | JBool bool
  | JNum jsnum
  | JStr string
  | JObj "(string \<times> jsval) list"

datatype error =
    Error string
  | UnrecognizedCurrencyError
  | NoExchangeRateDataError string

text \<open>Property read \<open>obj[k]\<close> on a property list: a missing key reads as \<open>undefined\<close>.\<close>

definition getProp :: "(string \<times> jsval) list \<Rightarrow> string \<Rightarrow> jsval" where
  "getProp ps k = (case map_of ps k of None \<Rightarrow> JUndefined | Some v \<Rightarrow> v)"

text \<open>ToBoolean on numbers and on values.\<close>

fun num_truthy :: "jsnum \<Rightarrow> bool" where
  "num_truthy NaN = False"
| "num_truthy (Fin r) = (r \<noteq> 0)"
| "num_truthy _ = True"

fun truthy :: "jsval \<Rightarrow> bool" where
  "truthy JUndefined = False"
| "truthy JNull = False"
| "truthy (JBool b) = b"
| "truthy (JNum n) = num_truthy n"
| "truthy (JStr s) = (s \<noteq> [])"
| "truthy (JObj _) = True"

text \<open>The comparison \<open>n <= 0\<close> and \<open>n > 0\<close> on numbers (both false on NaN).\<close>

fun num_le_zero :: "jsnum \<Rightarrow> bool" where
  "num_le_zero NaN = False"
| "num_le_zero PInf = False"
| "num_le_zero NInf = True"
| "num_le_zero (Fin r) = (r \<le> 0)"

fun num_gt_zero :: "jsnum \<Rightarrow> bool" where
  "num_gt_zero NaN = False"
| "num_gt_zero PInf = True"
| "num_gt_zero NInf = False"
| "num_gt_zero (Fin r) = (0 < r)"

text \<open>
  Floating-point multiplication and division. The exact product or quotient of two finite
  values is rounded to binary64 by the parameter \<open>fl\<close> (IEEE 754 round to nearest, ties to
  even, overflowing to an infinity); the special cases are those of IEEE 754.
\<close>

fun num_neg :: "jsnum \<Rightarrow> jsnum" where
  "num_neg NaN = NaN"
| "num_neg PInf = NInf"
| "num_neg NInf = PInf"
| "num_neg (Fin r) = Fin (- r)"

fun num_mul :: "(rat \<Rightarrow> jsnum) \<Rightarrow> jsnum \<Rightarrow> jsnum \<Rightarrow> jsnum" where
  "num_mul fl (Fin x) (Fin y) = fl (x * y)"
| "num_mul fl NaN _ = NaN"
| "num_mul fl _ NaN = NaN"
| "num_mul fl (Fin x) y = (if x = 0 then NaN else if 0 < x then y else num_neg y)"
| "num_mul fl x (Fin y) = (if y = 0 then NaN else if 0 < y then x else num_neg x)"
| "num_mul fl x y = (if x = y then PInf else NInf)"

text \<open>
  Division of a finite value by zero gives an infinity whose sign also depends on the
  sign of the zero; the model has one zero and takes it as \<open>+0\<close>.
\<close>

fun num_div :: "(rat \<Rightarrow> jsnum) \<Rightarrow> jsnum \<Rightarrow> jsnum \<Rightarrow> jsnum" where
  "num_div fl (Fin x) (Fin y) =
     (if y = 0 then (if x = 0 then NaN else if 0 < x then PInf else NInf)
      else fl (x / y))"
| "num_div fl NaN _ = NaN"
| "num_div fl _ NaN = NaN"
| "num_div fl (Fin x) _ = Fin 0"
| "num_div fl x (Fin y) = (if 0 \<le> y then x else num_neg x)"
| "num_div fl _ _ = NaN"

text \<open>\<open>Math.round\<close>: the nearest integer, a tie going towards \<open>+\<infinity>\<close>.\<close>

fun math_round :: "jsnum \<Rightarrow> jsnum" where
  "math_round (Fin r) = Fin (of_int \<lfloor>r + 1 / 2\<rfloor>)"
| "math_round n = n"

section \<open>The price model (models/listing/Price.js)\<close>

text \<open>\<open>is.number\<close> of is_js: a number that is not NaN.\<close>

fun is_number :: "jsval \<Rightarrow> bool" where
  "is_number (JNum n) = (n \<noteq> NaN)"
| "is_number _ = False"

text \<open>\<open>attrs.amount <= 0\<close>, evaluated only where \<open>is.number\<close> holds.\<close>

fun val_le_zero :: "jsval \<Rightarrow> bool" where
  "val_le_zero (JNum n) = num_le_zero n"
| "val_le_zero _ = False"

text \<open>
  \<open>addError\<close> appends a message to the list stored under a field of \<open>errObj\<close>, creating
  the list on first use.
\<close>

definition addError ::
  "(string \<times> string list) list \<Rightarrow> string \<Rightarrow> string \<Rightarrow> (string \<times> string list) list" where
  "addError errObj fieldName err =
     AList.update fieldName
       ((case map_of errObj fieldName of None \<Rightarrow> [] | Some es \<Rightarrow> es) @ [err]) errObj"

text \<open>
  \<open>validate(attrs)\<close>: the result is \<open>None\<close> for \<open>undefined\<close>, and the error object
  otherwise.
\<close>

definition validate :: "(string \<times> jsval) list \<Rightarrow> (string \<times> string list) list option" where
  "validate attrs =
     (let errObj0 = [];
          errObj1 =
            (if getProp attrs ''amount'' = JStr [] then
               addError errObj0 ''amount'' ''Please provide a price.''
             else if \<not> is_number (getProp attrs ''amount'') then
               addError errObj0 ''amount'' ''Please provide the price amount as a number.''
             else if val_le_zero (getProp attrs ''amount'') then
               addError errObj0 ''amount'' ''The price must be greater than 0.''
             else errObj0);
          errObj2 =
            (if \<not> truthy (getProp attrs ''currencyCode'') then
               addError errObj1 ''currencyCode'' ''Please provide a currency code.''
             else errObj1)
      in if length (map fst errObj2) \<noteq> 0 then Some errObj2 else None)"

text \<open>
  \<open>convertPriceOut(price)\<close>: throws unless \<open>price\<close> is an object; a numeric amount
  (\<open>typeof === 'number'\<close>, NaN included) is scaled and rounded in place.
\<close>

fun convertPriceOut :: "(rat \<Rightarrow> jsnum) \<Rightarrow> jsval \<Rightarrow> error + jsval" where
  "convertPriceOut fl (JObj price) =
     (case getProp price ''amount'' of
        JNum a \<Rightarrow>
          (if getProp price ''currencyCode'' = JStr ''BTC'' then
             Inr (JObj (AList.update ''amount''
                    (JNum (math_round (num_mul fl a (Fin 1000000000)))) price))
           else
             Inr (JObj (AList.update ''amount''
                    (JNum (math_round (num_mul fl a (Fin 100)))) price)))
      | _ \<Rightarrow> Inr (JObj price))"
| "convertPriceOut fl _ = Inl (Error ''Please provide a price object.'')"

section \<open>Currency registries and coin divisibility (utils/currency.js)\<close>

text \<open>
  The data modules \<open>data/currencies\<close>, \<open>data/walletCurrencies\<close> and
  \<open>data/cryptoListingCurrencies\<close> are read-only lookups by code; the functions the
  currency utilities import from them are the fields of this record:
  \<open>getCurrencyByCode(cur, {includeWalletCurs: false})\<close>, \<open>getWalletCurByCode(cur)\<close>,
  \<open>getCryptoListingCurs()\<close>, \<open>ensureMainnetCode(cur)\<close> and \<open>supportedWalletCurs()\<close>.
  A lookup gives the currency's data object, or nothing.
\<close>

record registry =
  fiatCurByCode :: "string \<Rightarrow> (string \<times> jsval) list option"
  walletCurByCode :: "string \<Rightarrow> (string \<times> jsval) list option"
  cryptoListingCurs :: "string list"
  ensureMainnetCode :: "string \<Rightarrow> string"
  supportedWalletCurs :: "string list"

text \<open>
  \<open>String.prototype.toUpperCase\<close> is the host's (it is Unicode-aware); it is the field of
  this record. On a string of ASCII characters it is \<open>asciiToUpperCase\<close>.
\<close>

record host =
  toUpperCase :: "string \<Rightarrow> string"

definition asciiToUpperChar :: "char \<Rightarrow> char" where
  "asciiToUpperChar c =
     (if 97 \<le> (of_char c :: nat) \<and> (of_char c :: nat) \<le> 122
      then char_of ((of_char c :: nat) - 32) else c)"

definition asciiToUpperCase :: "string \<Rightarrow> string" where
  "asciiToUpperCase s = map asciiToUpperChar s"

definition exampleHost :: host where
  "exampleHost = \<lparr>toUpperCase = asciiToUpperCase\<rparr>"

text \<open>
  A property read \<open>obj[k]\<close> with a key that is not fixed in the code follows the
  prototype chain: a plain object (an object literal, a parsed JSON object, a spread
  copy) inherits the properties of \<open>Object.prototype\<close>. Each of them reads as a
  function, or for \<open>__proto__\<close> as the prototype object: an object that is truthy, is
  not a number, and has none of the properties the code below reads from it.
\<close>

definition objectPrototypeProps :: "string list" where
  "objectPrototypeProps =
     [''constructor'', ''__defineGetter__'', ''__defineSetter__'', ''hasOwnProperty'',
      ''__lookupGetter__'', ''__lookupSetter__'', ''isPrototypeOf'', ''propertyIsEnumerable'',
      ''toString'', ''valueOf'', ''__proto__'', ''toLocaleString'']"

definition inheritedValue :: jsval where
  "inheritedValue = JObj []"

definition readProp :: "(string \<times> jsval) list \<Rightarrow> string \<Rightarrow> jsval" where
  "readProp ps k =
     (case map_of ps k of
        Some v \<Rightarrow> v
      | None \<Rightarrow> if k \<in> set objectPrototypeProps then inheritedValue else JUndefined)"

record curMeta =
  isFiat :: bool
  isWalletCur :: bool
  isCryptoListingCur :: bool
  curData :: jsval

definition getCurMeta :: "host \<Rightarrow> registry \<Rightarrow> jsval \<Rightarrow> error + curMeta" where
  "getCurMeta h reg currency =
     (case currency of
        JStr c \<Rightarrow>
          (if c = [] then Inl (Error ''Please provide a currrency as a non-empty string.'')
           else
             (let cur = toUpperCase h c;
                  fiatData = fiatCurByCode reg cur;
                  walletCur = walletCurByCode reg cur;
                  fiat = (fiatData \<noteq> None);
                  cryptoListing = (cur \<in> set (cryptoListingCurs reg));
                  wallet = (walletCur \<noteq> None)
              in if \<not> (fiat \<or> cryptoListing \<or> wallet) then Inl UnrecognizedCurrencyError
                 else Inr \<lparr>isFiat = fiat, isWalletCur = wallet,
                           isCryptoListingCur = cryptoListing,
                           curData = (case fiatData of Some d \<Rightarrow> JObj d
                                      | None \<Rightarrow> (case walletCur of Some w \<Rightarrow> JObj w
                                                  | None \<Rightarrow> JNull))\<rparr>))
      | _ \<Rightarrow> Inl (Error ''Please provide a currrency as a non-empty string.''))"

definition isFiatCur :: "host \<Rightarrow> registry \<Rightarrow> jsval \<Rightarrow> error + bool" where
  "isFiatCur h reg cur =
     (case getCurMeta h reg cur of Inl e \<Rightarrow> Inl e | Inr m \<Rightarrow> Inr (isFiat m))"

definition defaultCryptoCoinDivisibility :: jsval where
  "defaultCryptoCoinDivisibility = JNum (Fin 8)"

text \<open>
  Property read \<open>v.divisibility\<close> or \<open>v.coinDivisibility\<close> on a value that is an object
  or a truthy primitive (no built-in prototype has a property of either name).
\<close>

fun member :: "jsval \<Rightarrow> string \<Rightarrow> jsval" where
  "member (JObj ps) k = getProp ps k"
| "member _ k = JUndefined"

text \<open>
  \<open>getCoinDivisibility(currency, options)\<close>. The second argument is the process-wide
  \<open>app.walletCurDef\<close> (nothing when it is not available), the last one
  \<open>options.walletCurDef\<close>; a wallet-currency definition is an object keyed by code.
\<close>

definition getCoinDivisibility ::
  "host \<Rightarrow> registry \<Rightarrow> (string \<times> jsval) list option \<Rightarrow> jsval
     \<Rightarrow> (string \<times> jsval) list option \<Rightarrow> error + jsval" where
  "getCoinDivisibility h reg appWalletCurDef currency optWalletCurDef =
     (case currency of
        JStr c \<Rightarrow>
          (if c = [] then Inl (Error ''Please provide a currrency as a non-empty string.'')
           else
             (case (case optWalletCurDef of Some d \<Rightarrow> Some d | None \<Rightarrow> appWalletCurDef) of
                None \<Rightarrow>
                  Inl (Error (''The wallet currency definition must be provide as an object either ''
                        @ ''passed in as an option or available on the app module.''))
              | Some walletCurDef \<Rightarrow>
                  (if truthy (readProp walletCurDef c) then
                     Inr (member (readProp walletCurDef c) ''divisibility'')
                   else
                     (case getCurMeta h reg currency of
                        Inl e \<Rightarrow> Inl e
                      | Inr m \<Rightarrow>
                          (if isFiat m then Inr (JNum (Fin 2))
                           else if isWalletCur m then Inr (member (curData m) ''coinDivisibility'')
                           else if isCryptoListingCur m then Inr defaultCryptoCoinDivisibility
                           else Inl UnrecognizedCurrencyError)))))
      | _ \<Rightarrow> Inl (Error ''Please provide a currrency as a non-empty string.''))"

text \<open>
  The resolution order as the specification words it, for comparison with the code: the
  per-call definition if it contains the code, then the process-wide definition, then
  fiat, wallet currency and crypto-listing currency.
\<close>

definition spec_getCoinDivisibility ::
  "host \<Rightarrow> registry \<Rightarrow> (string \<times> jsval) list option \<Rightarrow> string
     \<Rightarrow> (string \<times> jsval) list option \<Rightarrow> error + jsval" where
  "spec_getCoinDivisibility h reg appWalletCurDef c optWalletCurDef =
     (let perCall = (case optWalletCurDef of None \<Rightarrow> JUndefined | Some d \<Rightarrow> readProp d c);
          processWide = (case appWalletCurDef of None \<Rightarrow> JUndefined | Some d \<Rightarrow> readProp d c)
      in if truthy perCall then Inr (member perCall ''divisibility'')
         else if truthy processWide then Inr (member processWide ''divisibility'')
         else if fiatCurByCode reg (toUpperCase h c) \<noteq> None then Inr (JNum (Fin 2))
         else (case walletCurByCode reg (toUpperCase h c) of
                 Some w \<Rightarrow> Inr (getProp w ''coinDivisibility'')
               | None \<Rightarrow>
                   if toUpperCase h c \<in> set (cryptoListingCurs reg) then Inr (JNum (Fin 8))
                   else Inl UnrecognizedCurrencyError))"

text \<open>A small registry for examples: USD and EUR are fiat, BTC (testnet code TBTC) is a wallet currency, ZEC a crypto-listing currency.\<close>

definition exampleRegistry :: registry where
  "exampleRegistry =
     \<lparr>fiatCurByCode =
        (\<lambda>c. if c = ''USD'' \<or> c = ''EUR'' then Some [(''code'', JStr c)] else None),
      walletCurByCode =
        (\<lambda>c. if c = ''BTC'' \<or> c = ''TBTC''
             then Some [(''code'', JStr ''BTC''), (''testnetCode'', JStr ''TBTC''),
                        (''coinDivisibility'', JNum (Fin 8))]
             else None),
      cryptoListingCurs = [''BTC'', ''ZEC''],
      ensureMainnetCode = (\<lambda>c. if c = ''TBTC'' then ''BTC'' else c),
      supportedWalletCurs = [''BTC'']\<rparr>"

section \<open>Arbitrary-precision decimals (the bignumber.js dependency)\<close>

text \<open>
  A BigNumber is NaN, an infinity or a finite decimal, represented by the rational number
  it denotes. Parsing a number or string into a BigNumber and printing one are the
  library's; they are the fields \<open>bigNumber\<close> and \<open>bnToString\<close> of this record,
  with the library's \<open>DECIMAL_PLACES\<close> setting (20 unless configured), to which
  a division is rounded. The rounding mode is the library's default, half up (a tie
  goes away from zero).
\<close>

datatype bignum = BNaN | BInf bool | BFin rat

record bnlib =
  bigNumber :: "jsval \<Rightarrow> bignum"
  bnToString :: "bignum \<Rightarrow> string"
  DECIMAL_PLACES :: nat

definition round_half_up :: "rat \<Rightarrow> int" where
  "round_half_up x = (if 0 \<le> x then \<lfloor>x + 1 / 2\<rfloor> else - \<lfloor>- x + 1 / 2\<rfloor>)"

definition round_dp :: "nat \<Rightarrow> rat \<Rightarrow> rat" where
  "round_dp dp x = of_int (round_half_up (x * 10 ^ dp)) / 10 ^ dp"

text \<open>\<open>x.multipliedBy(y)\<close>: exact on finite values.\<close>

fun multipliedBy :: "bignum \<Rightarrow> bignum \<Rightarrow> bignum" where
  "multipliedBy (BFin x) (BFin y) = BFin (x * y)"
| "multipliedBy BNaN _ = BNaN"
| "multipliedBy _ BNaN = BNaN"
| "multipliedBy (BFin x) (BInf s) = (if x = 0 then BNaN else BInf ((0 < x) = s))"
| "multipliedBy (BInf s) (BFin y) = (if y = 0 then BNaN else BInf ((0 < y) = s))"
| "multipliedBy (BInf s) (BInf t) = BInf (s = t)"

text \<open>
  \<open>x.dividedBy(y)\<close>: a finite quotient is rounded to \<open>DECIMAL_PLACES\<close> decimal
  places. (A finite value divided by zero is an infinity whose sign also depends on the
  sign of the zero; the model has one zero and takes it as \<open>+0\<close>.)
\<close>

fun dividedBy :: "nat \<Rightarrow> bignum \<Rightarrow> bignum \<Rightarrow> bignum" where
  "dividedBy dp (BFin x) (BFin y) =
     (if y = 0 then (if x = 0 then BNaN else BInf (0 < x)) else BFin (round_dp dp (x / y)))"
| "dividedBy dp BNaN _ = BNaN"
| "dividedBy dp _ BNaN = BNaN"
| "dividedBy dp (BFin x) (BInf s) = BFin 0"
| "dividedBy dp (BInf s) (BFin y) = BInf ((0 \<le> y) = s)"
| "dividedBy dp (BInf s) (BInf t) = BNaN"

text \<open>\<open>x.decimalPlaces(0)\<close>: rounding to an integer.\<close>

fun decimalPlaces0 :: "bignum \<Rightarrow> bignum" where
  "decimalPlaces0 (BFin x) = BFin (of_int (round_half_up x))"
| "decimalPlaces0 b = b"

section \<open>The base-unit converter (utils/currency.js)\<close>

text \<open>
  \<open>isValidCoinDivisibility\<close>: \<open>Number.isInteger(d) && d > 0\<close>, with the error message.
\<close>

fun isInteger :: "jsval \<Rightarrow> bool" where
  "isInteger (JNum (Fin r)) = (of_int \<lfloor>r\<rfloor> = r)"
| "isInteger _ = False"

fun val_gt_zero :: "jsval \<Rightarrow> bool" where
  "val_gt_zero (JNum n) = num_gt_zero n"
| "val_gt_zero _ = False"

definition isValidCoinDivisibility :: "jsval \<Rightarrow> bool \<times> string" where
  "isValidCoinDivisibility coinDivisibility =
     (isInteger coinDivisibility \<and> val_gt_zero coinDivisibility,
      ''The coin divisibility must be an integer greater than 0'')"

text \<open>The exponent of \<open>bigNumber(10).pow(divisibility)\<close> for a valid divisibility.\<close>

fun divisExp :: "jsval \<Rightarrow> nat" where
  "divisExp (JNum (Fin r)) = nat \<lfloor>r\<rfloor>"
| "divisExp _ = 0"

fun isNumberOrString :: "jsval \<Rightarrow> bool" where
  "isNumberOrString (JNum _) = True"
| "isNumberOrString (JStr _) = True"
| "isNumberOrString _ = False"

definition decimalToInteger :: "bnlib \<Rightarrow> jsval \<Rightarrow> jsval \<Rightarrow> error + jsval" where
  "decimalToInteger lib val divisibility =
     (if \<not> isNumberOrString val then
        Inl (Error ''The value must be provided as a number or a string.'')
      else if \<not> fst (isValidCoinDivisibility divisibility) then
        Inl (Error (snd (isValidCoinDivisibility divisibility)))
      else
        Inr (JStr (bnToString lib
          (decimalPlaces0
             (multipliedBy (bigNumber lib val) (BFin (10 ^ divisExp divisibility)))))))"

text \<open>
  \<open>integerToDecimal(value, divisibility, options)\<close>. The last argument is
  \<open>options.returnUndefinedOnError\<close> when the options have that key. The result is what
  the call returns or throws, with the errors reported through \<open>console.error\<close>.
\<close>

definition integerToDecimal_try :: "bnlib \<Rightarrow> jsval \<Rightarrow> jsval \<Rightarrow> error + jsval" where
  "integerToDecimal_try lib val divisibility =
     (if \<not> isNumberOrString val then
        Inl (Error ''The value must be provided as a number or a string.'')
      else if \<not> fst (isValidCoinDivisibility divisibility) then
        Inl (Error (snd (isValidCoinDivisibility divisibility)))
      else
        (let result = dividedBy (DECIMAL_PLACES lib) (bigNumber lib val)
                        (BFin (10 ^ divisExp divisibility))
         in if result = BNaN then Inl (Error ''result is not a number'')
            else Inr (JStr (bnToString lib result))))"

definition integerToDecimal ::
  "bnlib \<Rightarrow> jsval \<Rightarrow> jsval \<Rightarrow> jsval option \<Rightarrow> (error + jsval) \<times> error list" where
  "integerToDecimal lib val divisibility optReturnUndefinedOnError =
     (let returnUndefinedOnError =
            (case optReturnUndefinedOnError of None \<Rightarrow> JBool True | Some v \<Rightarrow> v)
      in case integerToDecimal_try lib val divisibility of
           Inr returnVal \<Rightarrow> (Inr returnVal, [])
         | Inl e \<Rightarrow>
             (if \<not> truthy returnUndefinedOnError then (Inl e, [])
              else (Inr JUndefined, [e])))"

text \<open>
  A fragment of the library's parsing and printing, enough for examples: the strings and
  numbers listed are read and printed as bignumber.js does, any other input reads as NaN.
\<close>

definition exampleLib :: bnlib where
  "exampleLib =
     \<lparr>bigNumber = (\<lambda>v.
        if v = JStr ''1'' \<or> v = JNum (Fin 1) then BFin 1
        else if v = JStr ''0'' \<or> v = JNum (Fin 0) then BFin 0
        else if v = JStr ''1.5'' \<or> v = JNum (Fin (3 / 2)) then BFin (3 / 2)
        else if v = JStr ''150'' \<or> v = JNum (Fin 150) then BFin 150
        else if v = JStr ''2'' \<or> v = JNum (Fin 2) then BFin 2
        else if v = JStr ''4'' \<or> v = JNum (Fin 4) then BFin 4
        else if v = JStr ''1e-21'' then BFin (1 / 10 ^ 21)
        else BNaN),
      bnToString = (\<lambda>b.
        if b = BFin 1 then ''1''
        else if b = BFin 0 then ''0''
        else if b = BFin (3 / 2) then ''1.5''
        else if b = BFin 150 then ''150''
        else if b = BFin 2 then ''2''
        else if b = BFin 3 then ''3''
        else if b = BFin 4 then ''4''
        else if b = BFin (1 / 10 ^ 21) then ''1e-21''
        else ''NaN''),
      DECIMAL_PLACES = 20\<rparr>"

section \<open>The exchange-rate cache and the currency converter (utils/currency.js)\<close>

text \<open>
  The module variable \<open>exchangeRates\<close> is an object from currency code to rate; it is
  passed to each function that reads it and returned by the one that replaces it.
  A read \<open>exchangeRates[code]\<close> gives the rate stored under the code, or a property the
  object inherits, or \<open>undefined\<close>.
\<close>

type_synonym rates = "(string \<times> jsnum) list"

datatype rateRead = Missing | Inherited | Own jsnum

definition readRate :: "rates \<Rightarrow> string \<Rightarrow> rateRead" where
  "readRate exchangeRates k =
     (case map_of exchangeRates k of
        Some n \<Rightarrow> Own n
      | None \<Rightarrow> if k \<in> set objectPrototypeProps then Inherited else Missing)"

text \<open>Truthiness of a read.\<close>

fun rate_truthy :: "rateRead \<Rightarrow> bool" where
  "rate_truthy Missing = False"
| "rate_truthy Inherited = True"
| "rate_truthy (Own n) = num_truthy n"

text \<open>
  A read as a value, and as the number an arithmetic operator makes of it (\<open>undefined\<close>
  and an inherited function or object become NaN).
\<close>

fun rateVal :: "rateRead \<Rightarrow> jsval" where
  "rateVal Missing = JUndefined"
| "rateVal Inherited = inheritedValue"
| "rateVal (Own n) = JNum n"

fun rateNum :: "rateRead \<Rightarrow> jsnum" where
  "rateNum (Own n) = n"
| "rateNum _ = NaN"

definition getExchangeRate :: "host \<Rightarrow> registry \<Rightarrow> rates \<Rightarrow> jsval \<Rightarrow> error + rateRead" where
  "getExchangeRate h reg exchangeRates currency =
     (if \<not> truthy currency then Inl (Error ''Please provide a currency.'')
      else
        (case isFiatCur h reg currency of
           Inl e \<Rightarrow> Inl e
         | Inr fiat \<Rightarrow>
             (case currency of
                JStr c \<Rightarrow> Inr (readRate exchangeRates (if fiat then c else ensureMainnetCode reg c))
              | _ \<Rightarrow> Inl (Error ''Please provide a currrency as a non-empty string.''))))"

fun isString :: "jsval \<Rightarrow> bool" where
  "isString (JStr _) = True"
| "isString _ = False"

definition convertCurrency ::
  "host \<Rightarrow> bnlib \<Rightarrow> (rat \<Rightarrow> jsnum) \<Rightarrow> registry \<Rightarrow> rates \<Rightarrow> jsval \<Rightarrow> jsval \<Rightarrow> jsval
     \<Rightarrow> error + jsval" where
  "convertCurrency h lib fl reg exchangeRates amount fromCur toCur =
     (if \<not> isNumberOrString amount then
        Inl (Error ''The amount must be provided as a number or string.'')
      else if isString amount \<and> bigNumber lib amount = BNaN then
        Inl (Error ''The string based number evaluates to NaN.'')
      else if amount = JNum NaN then
        Inl (Error ''If providing an amount as a number, it cannot be NaN.'')
      else
        (case fromCur of
           JStr f \<Rightarrow>
             (case toCur of
                JStr t \<Rightarrow>
                  (let fromCurCode = ensureMainnetCode reg (toUpperCase h f);
                       toCurCode = ensureMainnetCode reg (toUpperCase h t)
                   in if fromCurCode = toCurCode then Inr amount
                      else if \<not> rate_truthy (readRate exchangeRates fromCurCode) then
                        Inl (NoExchangeRateDataError
                              (''We do not have exchange rate data for '' @ toUpperCase h f @ ''.''))
                      else if \<not> rate_truthy (readRate exchangeRates toCurCode) then
                        Inl (NoExchangeRateDataError
                              (''We do not have exchange rate data for '' @ toUpperCase h t @ ''.''))
                      else
                        (case getExchangeRate h reg exchangeRates (JStr fromCurCode) of
                           Inl e \<Rightarrow> Inl e
                         | Inr fromRate \<Rightarrow>
                             (case getExchangeRate h reg exchangeRates (JStr toCurCode) of
                                Inl e \<Rightarrow> Inl e
                              | Inr toRate \<Rightarrow>
                                  (case amount of
                                     JNum a \<Rightarrow>
                                       Inr (JNum (num_mul fl (num_div fl a (rateNum fromRate))
                                                   (rateNum toRate)))
                                   | _ \<Rightarrow>
                                       Inr (JStr (bnToString lib
                                         (multipliedBy
                                            (dividedBy (DECIMAL_PLACES lib) (bigNumber lib amount)
                                               (bigNumber lib (rateVal fromRate)))
                                            (bigNumber lib (rateVal toRate)))))))))
              | _ \<Rightarrow> Inl (Error ''Please provide a toCur as a string''))
         | _ \<Rightarrow> Inl (Error ''Please provide a fromCur as a string'')))"

text \<open>
  A registry whose mainnet normalization is not idempotent, for examples: the wallet
  currencies A, B and C, with A normalized to B and B to C.
\<close>

definition chainRegistry :: registry where
  "chainRegistry =
     \<lparr>fiatCurByCode = (\<lambda>c. if c = ''USD'' then Some [(''code'', JStr c)] else None),
      walletCurByCode =
        (\<lambda>c. if c = ''A'' \<or> c = ''B'' \<or> c = ''C''
             then Some [(''code'', JStr c), (''coinDivisibility'', JNum (Fin 8))] else None),
      cryptoListingCurs = [],
      ensureMainnetCode = (\<lambda>c. if c = ''A'' then ''B'' else if c = ''B'' then ''C'' else c),
      supportedWalletCurs = [''A'']\<rparr>"

text \<open>
  The completion handler of \<open>fetchExchangeRates\<close>. The events triggered are returned in
  order; \<open>exchange-rate-change\<close> carries the changed codes, \<open>exchange-rate-change-<code>\<close>
  the code and the previous value.
\<close>

datatype event =
    ExchangeRateChange "string list"
  | ExchangeRateChangeCode string jsval

text \<open>The pivot coin chosen before the request, and the key \<open>[coin]\<close> it is stored under.\<close>

definition pivotCoin :: "registry \<Rightarrow> string option" where
  "pivotCoin reg =
     (let supportedCurs = supportedWalletCurs reg
      in if length supportedCurs \<noteq> 0 then
           Some (if ''BTC'' \<in> set supportedCurs \<or> ''TBTC'' \<in> set supportedCurs then ''BTC''
                 else ensureMainnetCode reg (hd supportedCurs))
         else None)"

definition coinKey :: "string option \<Rightarrow> string" where
  "coinKey coin = (case coin of None \<Rightarrow> ''undefined'' | Some c \<Rightarrow> c)"

text \<open>
  \<open>a !== b\<close> on two reads of the same key from two tables: NaN differs from every
  number, itself included; a property both tables inherit is the same object.
\<close>

fun strict_neq :: "rateRead \<Rightarrow> rateRead \<Rightarrow> bool" where
  "strict_neq Missing Missing = False"
| "strict_neq Inherited Inherited = False"
| "strict_neq (Own a) (Own b) = (a = NaN \<or> b = NaN \<or> a \<noteq> b)"
| "strict_neq _ _ = True"

text \<open>\<open>changed.add(cur)\<close> on a set kept in insertion order.\<close>

definition setAdd :: "string list \<Rightarrow> string \<Rightarrow> string list" where
  "setAdd changed cur = (if cur \<in> set changed then changed else changed @ [cur])"

definition changedCodes :: "rates \<Rightarrow> rates \<Rightarrow> string list" where
  "changedCodes exchangeRates data =
     (let changed1 =
            foldl (\<lambda>changed cur.
                     if strict_neq (readRate exchangeRates cur) (readRate data cur)
                     then setAdd changed cur else changed)
              [] (map fst exchangeRates)
      in foldl (\<lambda>changed cur.
                  if strict_neq (readRate data cur) (readRate exchangeRates cur)
                  then setAdd changed cur else changed)
           changed1 (map fst data))"

text \<open>
  \<open>prevExchangeRates[cur]\<close>, read from \<open>JSON.parse(JSON.stringify(exchangeRates))\<close>:
  JSON has no NaN and no infinities, they are written as \<open>null\<close>.
\<close>

fun jsonCopy :: "jsnum \<Rightarrow> jsval" where
  "jsonCopy (Fin r) = JNum (Fin r)"
| "jsonCopy _ = JNull"

text \<open>\<open>Number.isFinite\<close>: the numbers a JSON document can hold.\<close>

fun isFinite :: "jsnum \<Rightarrow> bool" where
  "isFinite (Fin _) = True"
| "isFinite _ = False"

definition prevRate :: "rates \<Rightarrow> string \<Rightarrow> jsval" where
  "prevRate exchangeRates cur =
     (case readRate exchangeRates cur of
        Missing \<Rightarrow> JUndefined
      | Inherited \<Rightarrow> inheritedValue
      | Own n \<Rightarrow> jsonCopy n)"

definition fetchExchangeRates_done :: "registry \<Rightarrow> rates \<Rightarrow> rates \<Rightarrow> rates \<times> event list" where
  "fetchExchangeRates_done reg exchangeRates data =
     (let changedArray = changedCodes exchangeRates data;
          exchangeRates' = AList.update (coinKey (pivotCoin reg)) (Fin 1) data
      in (exchangeRates',
          if length changedArray \<noteq> 0 then
            ExchangeRateChange changedArray
              # map (\<lambda>cur. ExchangeRateChangeCode cur (prevRate exchangeRates cur)) changedArray
          else []))"

text \<open>The events of one kind in a list of events.\<close>

fun isGlobalChange :: "event \<Rightarrow> bool" where
  "isGlobalChange (ExchangeRateChange _) = True"
| "isGlobalChange _ = False"

fun isChangeOf :: "string \<Rightarrow> event \<Rightarrow> bool" where
  "isChangeOf k (ExchangeRateChangeCode c _) = (c = k)"
| "isChangeOf k _ = False"

section \<open>Display decimals (utils/currency.js)\<close>

text \<open>
  \<open>preciseRound\<close> is imported from \<open>utils/number\<close> and is a parameter here, as is the
  binary64 rounding \<open>fl\<close>: \<open>parseFloat\<close> of the decimal string \<open>.0\<dots>01\<close> with
  \<open>maxDecimals\<close> digits is the binary64 value nearest to \<open>1 / 10 ^ maxDecimals\<close>.
  A number of decimals is a natural number.
\<close>

fun num_less :: "jsnum \<Rightarrow> jsnum \<Rightarrow> bool" where
  "num_less (Fin x) (Fin y) = (x < y)"
| "num_less NaN _ = False"
| "num_less _ NaN = False"
| "num_less NInf y = (y \<noteq> NInf)"
| "num_less x PInf = (x \<noteq> PInf)"
| "num_less _ _ = False"

definition isFormattedResultZero ::
  "(jsval \<Rightarrow> nat \<Rightarrow> jsnum) \<Rightarrow> (rat \<Rightarrow> jsnum) \<Rightarrow> jsval \<Rightarrow> nat \<Rightarrow> bool" where
  "isFormattedResultZero preciseRound fl amount maxDecimals =
     (if maxDecimals = 0 then True
      else num_less (preciseRound amount maxDecimals) (fl (1 / 10 ^ maxDecimals)))"

definition MAX_NUMBER_FORMAT_DISPLAY_DECIMALS :: nat where
  "MAX_NUMBER_FORMAT_DISPLAY_DECIMALS = 20"

text \<open>The \<open>while\<close> loop of \<open>getMaxDisplayDigits\<close>, over the test of its condition.\<close>

function getMaxDisplayDigits_loop :: "(nat \<Rightarrow> bool) \<Rightarrow> nat \<Rightarrow> nat" where
  "getMaxDisplayDigits_loop resultZero mx =
     (if resultZero mx \<and> mx < MAX_NUMBER_FORMAT_DISPLAY_DECIMALS
      then getMaxDisplayDigits_loop resultZero (Suc mx) else mx)"
  by pat_completeness auto
termination
  by (relation "measure (\<lambda>(resultZero, mx). MAX_NUMBER_FORMAT_DISPLAY_DECIMALS - mx)") auto

definition getMaxDisplayDigits ::
  "(jsval \<Rightarrow> nat \<Rightarrow> jsnum) \<Rightarrow> (rat \<Rightarrow> jsnum) \<Rightarrow> jsval \<Rightarrow> nat \<Rightarrow> error + nat" where
  "getMaxDisplayDigits preciseRound fl amount desiredMax =
     (if \<not> isNumberOrString amount then
        Inl (Error (''The amount must be provided as a number or a string representation ''
              @ ''of a number.''))
      else if amount = JNum (Fin 0) then Inr desiredMax
      else if desiredMax = 0 then Inr 0
      else Inr (getMaxDisplayDigits_loop (isFormattedResultZero preciseRound fl amount) desiredMax))"

text \<open>
  The part of \<open>formatCurrency\<close> that settles \<open>opts.maxDisplayDecimals\<close>, for an amount
  given as a number: from the maximum chosen so far (the option, or the coin
  divisibility) to the value handed to \<open>Intl.NumberFormat\<close>. The last argument is
  \<open>options.extendMaxDecimalsOnZero\<close> when the options have that key (the default is
  \<open>true\<close>).
\<close>

definition formatCurrency_maxDisplayDecimals ::
  "(jsval \<Rightarrow> nat \<Rightarrow> jsnum) \<Rightarrow> (rat \<Rightarrow> jsnum) \<Rightarrow> jsnum \<Rightarrow> nat \<Rightarrow> jsval option \<Rightarrow> error + nat" where
  "formatCurrency_maxDisplayDecimals preciseRound fl amount maxDisplayDecimals optExtend =
     (let extendMaxDecimalsOnZero = (case optExtend of None \<Rightarrow> JBool True | Some v \<Rightarrow> v)
      in case (if num_gt_zero amount \<and> truthy extendMaxDecimalsOnZero
               then getMaxDisplayDigits preciseRound fl (JNum amount) maxDisplayDecimals
               else Inr maxDisplayDecimals) of
           Inl e \<Rightarrow> Inl e
         | Inr m \<Rightarrow>
             Inr (if MAX_NUMBER_FORMAT_DISPLAY_DECIMALS < m
                  then MAX_NUMBER_FORMAT_DISPLAY_DECIMALS else m))"

text \<open>
  A stand-in for \<open>preciseRound\<close> in examples: exact rounding of a finite number to the
  given number of decimals, a tie going away from zero.
\<close>

fun examplePreciseRound :: "jsval \<Rightarrow> nat \<Rightarrow> jsnum" where
  "examplePreciseRound (JNum (Fin r)) decimals = Fin (round_dp decimals r)"
| "examplePreciseRound (JNum n) decimals = n"
| "examplePreciseRound _ decimals = NaN"

section \<open>Evaluation helpers\<close>

lemma floor_rat_numeral [simp]:
  "\<lfloor>(numeral a :: rat) / numeral b\<rfloor> = numeral a div numeral b"
  by (metis floor_divide_of_int_eq of_int_numeral)

lemma floor_rat_neg_numeral [simp]:
  "\<lfloor>- (numeral a :: rat) / numeral b\<rfloor> = - numeral a div numeral b"
  by (metis floor_divide_of_int_eq of_int_numeral of_int_minus)

section \<open>Properties of the price model\<close>

lemma getProp_update_same: "getProp (AList.update k v ps) k = v"
  by (simp add: getProp_def update_conv')

text \<open>
  C8. \<open>validate\<close> returns an error object exactly when the amount is the empty string,
  is not a number, or is not greater than 0, or the currency code is missing (falsy);
  otherwise it returns no result. The error object has an entry under \<open>amount\<close> exactly
  in the first three cases and an entry under \<open>currencyCode\<close> exactly in the last.
  In particular \<open>{amount: 0, currencyCode: 'USD'}\<close> gives an error keyed \<open>amount\<close> and
  \<open>{amount: 5, currencyCode: 'USD'}\<close> gives no error.
\<close>

theorem validate_spec:
  "((validate attrs = None) =
     (is_number (getProp attrs ''amount'') \<and> \<not> val_le_zero (getProp attrs ''amount'')
      \<and> truthy (getProp attrs ''currencyCode'')))
   \<and> ((\<exists>errObj msgs. validate attrs = Some errObj \<and> map_of errObj ''amount'' = Some msgs) =
     (\<not> (is_number (getProp attrs ''amount'') \<and> \<not> val_le_zero (getProp attrs ''amount''))))
   \<and> ((\<exists>errObj msgs. validate attrs = Some errObj
          \<and> map_of errObj ''currencyCode'' = Some msgs) =
     (\<not> truthy (getProp attrs ''currencyCode'')))
   \<and> validate [(''amount'', JNum (Fin 0)), (''currencyCode'', JStr ''USD'')] =
     Some [(''amount'', [''The price must be greater than 0.''])]
   \<and> validate [(''amount'', JNum (Fin 5)), (''currencyCode'', JStr ''USD'')] = None"
  by (auto simp add: validate_def addError_def getProp_def Let_def)

theorem validate_spec_witness:
  "validate [(''amount'', JStr ''5''), (''currencyCode'', JStr [])] =
     Some [(''amount'', [''Please provide the price amount as a number.'']),
           (''currencyCode'', [''Please provide a currency code.''])]
   \<and> \<not> is_number (getProp [(''amount'', JStr ''5''), (''currencyCode'', JStr [])] ''amount'')
   \<and> \<not> truthy (getProp [(''amount'', JStr ''5''), (''currencyCode'', JStr [])] ''currencyCode'')"
  using validate_spec [of "[(''amount'', JStr ''5''), (''currencyCode'', JStr [])]"]
  by (simp add: validate_def addError_def getProp_def)

lemma math_round_nearest:
  "(x::rat) - 1 / 2 < of_int \<lfloor>x + 1 / 2\<rfloor> \<and> of_int \<lfloor>x + 1 / 2\<rfloor> \<le> x + 1 / 2"
  by linarith

lemma math_round_between:
  "of_int n - 1 / 2 \<le> (x::rat) \<Longrightarrow> x < of_int n + 1 / 2 \<Longrightarrow> \<lfloor>x + 1 / 2\<rfloor> = n"
  by linarith

lemma convertPriceOut_finite:
  assumes "getProp price ''amount'' = JNum a"
    and "num_mul fl a (Fin (if getProp price ''currencyCode'' = JStr ''BTC''
                            then 10 ^ 9 else 10 ^ 2)) = Fin x"
  shows "convertPriceOut fl (JObj price) =
           Inr (JObj (AList.update ''amount'' (JNum (Fin (of_int \<lfloor>x + 1 / 2\<rfloor>))) price))"
  using assms by (simp split: if_splits)

lemma convertPriceOut_not_finite:
  assumes "getProp price ''amount'' = JNum a"
    and "num_mul fl a (Fin (if getProp price ''currencyCode'' = JStr ''BTC''
                            then 10 ^ 9 else 10 ^ 2)) = p"
    and "\<not> isFinite p"
  shows "convertPriceOut fl (JObj price) = Inr (JObj (AList.update ''amount'' (JNum p) price))"
proof -
  have "math_round p = p" using assms(3) by (cases p) simp_all
  then show ?thesis using assms(1,2) by (auto split: if_splits)
qed

text \<open>
  C9. For a price object whose amount is a number, \<open>convertPriceOut\<close> replaces the amount
  by \<open>Math.round(amount * 1000000000)\<close> when the currency code is exactly \<open>'BTC'\<close> and by
  \<open>Math.round(amount * 100)\<close> for every other code, leaving the other properties as they
  are: when the floating-point product is the finite value \<open>x\<close>, the new amount is the
  integer \<open>\<lfloor>x + 1/2\<rfloor>\<close>, which lies within one half of \<open>x\<close> (a tie goes up), and a product
  that is NaN or infinite is stored as it is. Since the integers 1000000000 and 100 are
  binary64 values (the rounding \<open>fl\<close> leaves them unchanged), \<open>{amount: 1, currencyCode:
  'BTC'}\<close> gets the amount 1000000000 and \<open>{amount: 1, currencyCode: 'USD'}\<close> the amount
  100; an amount whose product with 100 is between 123 and 123.5 gets 123, the product 0.5
  gives 1 and the product -0.5 gives 0.
\<close>

theorem convertPriceOut_spec:
  "(getProp price ''amount'' = JNum a \<longrightarrow>
      convertPriceOut fl (JObj price) =
        Inr (JObj (AList.update ''amount''
          (JNum (math_round (num_mul fl a
             (Fin (if getProp price ''currencyCode'' = JStr ''BTC'' then 10 ^ 9 else 10 ^ 2)))))
          price)))
   \<and> (\<forall>x. getProp price ''amount'' = JNum a
          \<and> num_mul fl a (Fin (if getProp price ''currencyCode'' = JStr ''BTC''
                                then 10 ^ 9 else 10 ^ 2)) = Fin x \<longrightarrow>
        convertPriceOut fl (JObj price) =
          Inr (JObj (AList.update ''amount'' (JNum (Fin (of_int \<lfloor>x + 1 / 2\<rfloor>))) price))
        \<and> x - 1 / 2 < of_int \<lfloor>x + 1 / 2\<rfloor> \<and> of_int \<lfloor>x + 1 / 2\<rfloor> \<le> x + 1 / 2)
   \<and> (\<forall>p. getProp price ''amount'' = JNum a
          \<and> num_mul fl a (Fin (if getProp price ''currencyCode'' = JStr ''BTC''
                                then 10 ^ 9 else 10 ^ 2)) = p
          \<and> \<not> isFinite p \<longrightarrow>
        convertPriceOut fl (JObj price) = Inr (JObj (AList.update ''amount'' (JNum p) price)))
   \<and> (fl 1000000000 = Fin 1000000000 \<longrightarrow>
      convertPriceOut fl (JObj [(''amount'', JNum (Fin 1)), (''currencyCode'', JStr ''BTC'')]) =
        Inr (JObj [(''amount'', JNum (Fin 1000000000)), (''currencyCode'', JStr ''BTC'')]))
   \<and> (fl 100 = Fin 100 \<longrightarrow>
      convertPriceOut fl (JObj [(''amount'', JNum (Fin 1)), (''currencyCode'', JStr ''USD'')]) =
        Inr (JObj [(''amount'', JNum (Fin 100)), (''currencyCode'', JStr ''USD'')]))
   \<and> (\<forall>x. fl (617 / 5) = Fin x \<and> 123 \<le> x \<and> x < 247 / 2 \<longrightarrow>
      convertPriceOut fl
          (JObj [(''amount'', JNum (Fin (617 / 500))), (''currencyCode'', JStr ''USD'')]) =
        Inr (JObj [(''amount'', JNum (Fin 123)), (''currencyCode'', JStr ''USD'')]))
   \<and> (fl (1 / 2) = Fin (1 / 2) \<longrightarrow>
      convertPriceOut fl
          (JObj [(''amount'', JNum (Fin (1 / 200))), (''currencyCode'', JStr ''USD'')]) =
        Inr (JObj [(''amount'', JNum (Fin 1)), (''currencyCode'', JStr ''USD'')]))
   \<and> (fl (- 1 / 2) = Fin (- 1 / 2) \<longrightarrow>
      convertPriceOut fl
          (JObj [(''amount'', JNum (Fin (- 1 / 200))), (''currencyCode'', JStr ''USD'')]) =
        Inr (JObj [(''amount'', JNum (Fin 0)), (''currencyCode'', JStr ''USD'')]))"
proof -
  have c1: "getProp price ''amount'' = JNum a \<longrightarrow>
      convertPriceOut fl (JObj price) =
        Inr (JObj (AList.update ''amount''
          (JNum (math_round (num_mul fl a
             (Fin (if getProp price ''currencyCode'' = JStr ''BTC'' then 10 ^ 9 else 10 ^ 2)))))
          price))"
    by simp
  have c2: "\<forall>x. getProp price ''amount'' = JNum a
          \<and> num_mul fl a (Fin (if getProp price ''currencyCode'' = JStr ''BTC''
                                then 10 ^ 9 else 10 ^ 2)) = Fin x \<longrightarrow>
        convertPriceOut fl (JObj price) =
          Inr (JObj (AList.update ''amount'' (JNum (Fin (of_int \<lfloor>x + 1 / 2\<rfloor>))) price))
        \<and> x - 1 / 2 < of_int \<lfloor>x + 1 / 2\<rfloor> \<and> of_int \<lfloor>x + 1 / 2\<rfloor> \<le> x + 1 / 2"
    using convertPriceOut_finite [of price a fl] math_round_nearest by blast
  have c3: "\<forall>p. getProp price ''amount'' = JNum a
          \<and> num_mul fl a (Fin (if getProp price ''currencyCode'' = JStr ''BTC''
                                then 10 ^ 9 else 10 ^ 2)) = p
          \<and> \<not> isFinite p \<longrightarrow>
        convertPriceOut fl (JObj price) = Inr (JObj (AList.update ''amount'' (JNum p) price))"
    using convertPriceOut_not_finite [of price a fl] by blast
  have c4: "fl 1000000000 = Fin 1000000000 \<longrightarrow>
      convertPriceOut fl (JObj [(''amount'', JNum (Fin 1)), (''currencyCode'', JStr ''BTC'')]) =
        Inr (JObj [(''amount'', JNum (Fin 1000000000)), (''currencyCode'', JStr ''BTC'')])"
    by (simp add: getProp_def)
  have c5: "fl 100 = Fin 100 \<longrightarrow>
      convertPriceOut fl (JObj [(''amount'', JNum (Fin 1)), (''currencyCode'', JStr ''USD'')]) =
        Inr (JObj [(''amount'', JNum (Fin 100)), (''currencyCode'', JStr ''USD'')])"
    by (simp add: getProp_def)
  have c6: "\<forall>x. fl (617 / 5) = Fin x \<and> 123 \<le> x \<and> x < 247 / 2 \<longrightarrow>
      convertPriceOut fl
          (JObj [(''amount'', JNum (Fin (617 / 500))), (''currencyCode'', JStr ''USD'')]) =
        Inr (JObj [(''amount'', JNum (Fin 123)), (''currencyCode'', JStr ''USD'')])"
  proof (intro allI impI)
    fix x assume a: "fl (617 / 5) = Fin x \<and> 123 \<le> x \<and> x < 247 / 2"
    then have "\<lfloor>x + 1 / 2\<rfloor> = 123" using math_round_between [of 123 x] by simp
    then show "convertPriceOut fl
          (JObj [(''amount'', JNum (Fin (617 / 500))), (''currencyCode'', JStr ''USD'')]) =
        Inr (JObj [(''amount'', JNum (Fin 123)), (''currencyCode'', JStr ''USD'')])"
      using a by (simp add: getProp_def)
  qed
  have c7: "fl (1 / 2) = Fin (1 / 2) \<longrightarrow>
      convertPriceOut fl
          (JObj [(''amount'', JNum (Fin (1 / 200))), (''currencyCode'', JStr ''USD'')]) =
        Inr (JObj [(''amount'', JNum (Fin 1)), (''currencyCode'', JStr ''USD'')])"
    by (simp add: getProp_def)
  have c8: "fl (- 1 / 2) = Fin (- 1 / 2) \<longrightarrow>
      convertPriceOut fl
          (JObj [(''amount'', JNum (Fin (- 1 / 200))), (''currencyCode'', JStr ''USD'')]) =
        Inr (JObj [(''amount'', JNum (Fin 0)), (''currencyCode'', JStr ''USD'')])"
    by (simp add: getProp_def)
  from c1 c2 c3 c4 c5 c6 c7 c8 show ?thesis by blast
qed

theorem convertPriceOut_spec_witness:
  "getProp [(''amount'', JNum (Fin (617 / 500))), (''currencyCode'', JStr ''EUR'')] ''amount''
     = JNum (Fin (617 / 500))
   \<and> num_mul Fin (Fin (617 / 500)) (Fin (10 ^ 2)) = Fin (617 / 5)
   \<and> of_int \<lfloor>(617 / 5 :: rat) + 1 / 2\<rfloor> = (123 :: rat)
   \<and> convertPriceOut Fin
        (JObj [(''amount'', JNum (Fin (617 / 500))), (''currencyCode'', JStr ''EUR'')]) =
       Inr (JObj [(''amount'', JNum (Fin 123)), (''currencyCode'', JStr ''EUR'')])
   \<and> convertPriceOut Fin
        (JObj [(''amount'', JNum (Fin 1)), (''currencyCode'', JStr ''BTC'')]) =
       Inr (JObj [(''amount'', JNum (Fin 1000000000)), (''currencyCode'', JStr ''BTC'')])
   \<and> convertPriceOut Fin
        (JObj [(''amount'', JNum (Fin (1 / 200))), (''currencyCode'', JStr ''USD'')]) =
       Inr (JObj [(''amount'', JNum (Fin 1)), (''currencyCode'', JStr ''USD'')])
   \<and> convertPriceOut Fin
        (JObj [(''amount'', JNum (Fin (- 1 / 200))), (''currencyCode'', JStr ''USD'')]) =
       Inr (JObj [(''amount'', JNum (Fin 0)), (''currencyCode'', JStr ''USD'')])"
  using convertPriceOut_spec
    [of "[(''amount'', JNum (Fin (617 / 500))), (''currencyCode'', JStr ''EUR'')]"
        "Fin (617 / 500)" Fin]
  by (simp add: getProp_def)

section \<open>Properties of the coin divisibility resolver\<close>

lemma asciiToUpperCase_examples:
  "asciiToUpperCase ''USD'' = ''USD''"
  "asciiToUpperCase ''usd'' = ''USD''"
  "asciiToUpperCase ''BTC'' = ''BTC''"
  "asciiToUpperCase ''btc'' = ''BTC''"
  "asciiToUpperCase ''TBTC'' = ''TBTC''"
  "asciiToUpperCase ''XYZ'' = ''XYZ''"
  "asciiToUpperCase ''A'' = ''A''"
  by code_simp+

lemma toUpperCase_USD: "toUpperCase exampleHost ''USD'' = ''USD''"
  by (simp add: exampleHost_def asciiToUpperCase_examples)

lemma toUpperCase_usd: "toUpperCase exampleHost ''usd'' = ''USD''"
  by (simp add: exampleHost_def asciiToUpperCase_examples)

lemma toUpperCase_BTC: "toUpperCase exampleHost ''BTC'' = ''BTC''"
  by (simp add: exampleHost_def asciiToUpperCase_examples)

lemma readProp_own: "map_of d c = Some v \<Longrightarrow> readProp d c = v"
  by (simp add: readProp_def)

lemma readProp_inherited:
  "map_of d c = None \<Longrightarrow> c \<in> set objectPrototypeProps \<Longrightarrow> readProp d c = JObj []"
  by (simp add: readProp_def inheritedValue_def)

lemma readProp_examples:
  "readProp [] ''USD'' = JUndefined"
  "readProp [(''LTC'', JObj [(''divisibility'', JNum (Fin 8))])] ''usd'' = JUndefined"
  "readProp [] ''toString'' = JObj []"
  "readProp [(''USD'', JObj [(''divisibility'', JNum (Fin 5))])] ''USD''
     = JObj [(''divisibility'', JNum (Fin 5))]"
  by (simp_all add: readProp_def objectPrototypeProps_def inheritedValue_def)

text \<open>
  C2, as stated, fails: a per-call wallet-currency definition that does not contain the
  code hides the process-wide one. With the per-call definition \<open>{}\<close>, the process-wide
  definition \<open>{USD: {divisibility: 5}}\<close> and USD a fiat currency, the code returns 2,
  where the stated order (per-call, then process-wide, then fiat) gives 5.
\<close>

theorem getCoinDivisibility_order_counterexample:
  "getCoinDivisibility exampleHost exampleRegistry
      (Some [(''USD'', JObj [(''divisibility'', JNum (Fin 5))])]) (JStr ''USD'') (Some [])
     = Inr (JNum (Fin 2))
   \<and> spec_getCoinDivisibility exampleHost exampleRegistry
      (Some [(''USD'', JObj [(''divisibility'', JNum (Fin 5))])]) ''USD'' (Some [])
     = Inr (JNum (Fin 5))
   \<and> getCoinDivisibility exampleHost exampleRegistry
      (Some [(''USD'', JObj [(''divisibility'', JNum (Fin 5))])]) (JStr ''USD'') (Some [])
     \<noteq> spec_getCoinDivisibility exampleHost exampleRegistry
      (Some [(''USD'', JObj [(''divisibility'', JNum (Fin 5))])]) ''USD'' (Some [])"
  by (simp add: getCoinDivisibility_def spec_getCoinDivisibility_def getCurMeta_def
      exampleRegistry_def getProp_def toUpperCase_USD readProp_examples)

text \<open>
  C2, amended. For a non-empty currency code, \<open>getCoinDivisibility\<close> consults one
  wallet-currency definition: the per-call one when it is supplied, the process-wide one
  otherwise (a configuration error when there is neither). If reading the code from that
  definition gives a truthy value (an entry of its own that is not falsy, or a property
  every object inherits, such as \<open>toString\<close>), the divisibility of that value is returned
  (\<open>undefined\<close> for an inherited property); otherwise a fiat currency gives 2, a
  recognized wallet currency its declared divisibility, a recognized crypto-listing
  currency 8, and a code in no registry throws \<open>UnrecognizedCurrencyError\<close>. When the
  read is not truthy, \<open>'USD'\<close> (fiat) gives 2 and \<open>'BTC'\<close> (a wallet currency
  declaring 8, or a crypto-listing currency) gives 8.
\<close>

theorem getCoinDivisibility_resolution:
  assumes "c \<noteq> []"
    and "chosen = (case optWalletCurDef of Some d \<Rightarrow> Some d | None \<Rightarrow> appWalletCurDef)"
    and "r = getCoinDivisibility h reg appWalletCurDef (JStr c) optWalletCurDef"
  shows "(chosen = None \<longrightarrow> (\<exists>msg. r = Inl (Error msg)))
    \<and> (\<forall>d. chosen = Some d \<longrightarrow>
         (truthy (readProp d c) \<longrightarrow> r = Inr (member (readProp d c) ''divisibility''))
       \<and> (\<not> truthy (readProp d c) \<longrightarrow>
            (fiatCurByCode reg (toUpperCase h c) \<noteq> None \<longrightarrow> r = Inr (JNum (Fin 2)))
          \<and> (fiatCurByCode reg (toUpperCase h c) = None \<longrightarrow>
               (\<forall>w. walletCurByCode reg (toUpperCase h c) = Some w \<longrightarrow>
                    r = Inr (getProp w ''coinDivisibility''))
             \<and> (walletCurByCode reg (toUpperCase h c) = None \<longrightarrow>
                  (toUpperCase h c \<in> set (cryptoListingCurs reg) \<longrightarrow> r = Inr (JNum (Fin 8)))
                \<and> (toUpperCase h c \<notin> set (cryptoListingCurs reg) \<longrightarrow>
                     r = Inl UnrecognizedCurrencyError)))))
    \<and> (\<forall>d v. chosen = Some d \<and> map_of d c = Some v \<and> truthy v \<longrightarrow>
          r = Inr (member v ''divisibility''))
    \<and> (\<forall>d. chosen = Some d \<and> map_of d c = None \<and> c \<in> set objectPrototypeProps \<longrightarrow>
          r = Inr JUndefined)
    \<and> (\<forall>d. chosen = Some d \<and> \<not> truthy (readProp d c) \<and> c = ''USD''
            \<and> toUpperCase h ''USD'' = ''USD''
            \<and> fiatCurByCode reg ''USD'' \<noteq> None \<longrightarrow> r = Inr (JNum (Fin 2)))
    \<and> (\<forall>d. chosen = Some d \<and> \<not> truthy (readProp d c) \<and> c = ''BTC''
            \<and> toUpperCase h ''BTC'' = ''BTC''
            \<and> fiatCurByCode reg ''BTC'' = None
            \<and> ((\<exists>w. walletCurByCode reg ''BTC'' = Some w
                    \<and> getProp w ''coinDivisibility'' = JNum (Fin 8))
               \<or> (walletCurByCode reg ''BTC'' = None \<and> ''BTC'' \<in> set (cryptoListingCurs reg)))
          \<longrightarrow> r = Inr (JNum (Fin 8)))"
proof -
  have general: "\<forall>d. chosen = Some d \<longrightarrow>
         (truthy (readProp d c) \<longrightarrow> r = Inr (member (readProp d c) ''divisibility''))
       \<and> (\<not> truthy (readProp d c) \<longrightarrow>
            (fiatCurByCode reg (toUpperCase h c) \<noteq> None \<longrightarrow> r = Inr (JNum (Fin 2)))
          \<and> (fiatCurByCode reg (toUpperCase h c) = None \<longrightarrow>
               (\<forall>w. walletCurByCode reg (toUpperCase h c) = Some w \<longrightarrow>
                    r = Inr (getProp w ''coinDivisibility''))
             \<and> (walletCurByCode reg (toUpperCase h c) = None \<longrightarrow>
                  (toUpperCase h c \<in> set (cryptoListingCurs reg) \<longrightarrow> r = Inr (JNum (Fin 8)))
                \<and> (toUpperCase h c \<notin> set (cryptoListingCurs reg) \<longrightarrow>
                     r = Inl UnrecognizedCurrencyError))))"
    using assms
    by (auto simp add: getCoinDivisibility_def getCurMeta_def Let_def
        defaultCryptoCoinDivisibility_def split: option.splits)
  have none: "chosen = None \<longrightarrow> (\<exists>msg. r = Inl (Error msg))"
    using assms by (auto simp add: getCoinDivisibility_def split: option.splits)
  have own: "\<forall>d v. chosen = Some d \<and> map_of d c = Some v \<and> truthy v \<longrightarrow>
          r = Inr (member v ''divisibility'')"
    using general readProp_own by metis
  have inh: "\<forall>d. chosen = Some d \<and> map_of d c = None \<and> c \<in> set objectPrototypeProps \<longrightarrow>
          r = Inr JUndefined"
  proof (intro allI impI)
    fix d assume a: "chosen = Some d \<and> map_of d c = None \<and> c \<in> set objectPrototypeProps"
    then have rp: "readProp d c = JObj []" using readProp_inherited by blast
    then have "r = Inr (member (JObj []) ''divisibility'')" using general a by simp
    then show "r = Inr JUndefined" by (simp add: getProp_def)
  qed
  have usd: "\<forall>d. chosen = Some d \<and> \<not> truthy (readProp d c) \<and> c = ''USD''
            \<and> toUpperCase h ''USD'' = ''USD''
            \<and> fiatCurByCode reg ''USD'' \<noteq> None \<longrightarrow> r = Inr (JNum (Fin 2))"
    using general by metis
  have btc: "\<forall>d. chosen = Some d \<and> \<not> truthy (readProp d c) \<and> c = ''BTC''
            \<and> toUpperCase h ''BTC'' = ''BTC''
            \<and> fiatCurByCode reg ''BTC'' = None
            \<and> ((\<exists>w. walletCurByCode reg ''BTC'' = Some w
                    \<and> getProp w ''coinDivisibility'' = JNum (Fin 8))
               \<or> (walletCurByCode reg ''BTC'' = None \<and> ''BTC'' \<in> set (cryptoListingCurs reg)))
          \<longrightarrow> r = Inr (JNum (Fin 8))"
    using general by metis
  from none general own inh usd btc show ?thesis by blast
qed

lemma example_divisibility_usd:
  "getCoinDivisibility exampleHost exampleRegistry
      (Some [(''LTC'', JObj [(''divisibility'', JNum (Fin 8))])]) (JStr ''usd'') None
     = Inr (JNum (Fin 2))"
  by (simp add: getCoinDivisibility_def getCurMeta_def exampleRegistry_def
      toUpperCase_usd readProp_examples Let_def)

theorem getCoinDivisibility_resolution_witness:
  "getCoinDivisibility exampleHost exampleRegistry
      (Some [(''LTC'', JObj [(''divisibility'', JNum (Fin 8))])]) (JStr ''usd'') None
     = Inr (JNum (Fin 2))
   \<and> getCoinDivisibility exampleHost exampleRegistry None (JStr ''toString'') (Some [])
     = Inr JUndefined
   \<and> (\<exists>msg. getCoinDivisibility exampleHost exampleRegistry None (JStr ''usd'') None
        = Inl (Error msg))"
proof -
  have ne: "''toString'' \<noteq> []" "''usd'' \<noteq> []" by simp_all
  have c1: "Some [] = (case Some [] of Some d \<Rightarrow> Some d | None \<Rightarrow> (None :: (string \<times> jsval) list option))"
    by simp
  have c2: "(None :: (string \<times> jsval) list option) = (case None of Some d \<Rightarrow> Some d | None \<Rightarrow> None)"
    by simp
  have inh: "map_of ([] :: (string \<times> jsval) list) ''toString'' = None
      \<and> ''toString'' \<in> set objectPrototypeProps"
    by (simp add: objectPrototypeProps_def)
  have a: "getCoinDivisibility exampleHost exampleRegistry None (JStr ''toString'') (Some [])
     = Inr JUndefined"
    using getCoinDivisibility_resolution [OF ne(1) c1 refl, of exampleHost exampleRegistry] inh
    by blast
  have b: "\<exists>msg. getCoinDivisibility exampleHost exampleRegistry None (JStr ''usd'') None
        = Inl (Error msg)"
    using getCoinDivisibility_resolution [OF ne(2) c2 refl, of exampleHost exampleRegistry]
    by blast
  from example_divisibility_usd a b show ?thesis by blast
qed

section \<open>Properties of the base-unit converter\<close>

lemma round_half_up_of_int: "round_half_up (of_int n) = n"
proof -
  have a: "\<lfloor>(of_int n :: rat) + 1 / 2\<rfloor> = n" by linarith
  have b: "\<lfloor>- (of_int n :: rat) + 1 / 2\<rfloor> = - n" by linarith
  show ?thesis unfolding round_half_up_def using a b by simp
qed

lemma round_half_up_close: "\<bar>of_int (round_half_up x) - x\<bar> \<le> 1 / 2"
proof (cases "0 \<le> x")
  case True
  define f where "f = \<lfloor>x + 1 / 2\<rfloor>"
  have "of_int f \<le> x + 1 / 2" "x + 1 / 2 < of_int f + 1"
    unfolding f_def by linarith+
  moreover have "(of_int (round_half_up x) :: rat) = of_int f"
    using True by (simp add: round_half_up_def f_def)
  ultimately show ?thesis by linarith
next
  case False
  define f where "f = \<lfloor>- x + 1 / 2\<rfloor>"
  have "of_int f \<le> - x + 1 / 2" "- x + 1 / 2 < of_int f + 1"
    unfolding f_def by linarith+
  moreover have "(of_int (round_half_up x) :: rat) = - of_int f"
    using False by (simp add: round_half_up_def f_def)
  ultimately show ?thesis by linarith
qed

lemma round_dp_exact:
  assumes "d \<le> dp"
  shows "round_dp dp (of_int n / 10 ^ d) = of_int n / 10 ^ d"
proof -
  have p: "(10::rat) ^ dp = 10 ^ (dp - d) * 10 ^ d"
    using assms by (simp add: power_add [symmetric])
  have "of_int n / 10 ^ d * (10::rat) ^ dp = of_int (n * 10 ^ (dp - d))"
    by (simp add: p)
  then have "round_half_up (of_int n / 10 ^ d * 10 ^ dp) = n * 10 ^ (dp - d)"
    using round_half_up_of_int by metis
  then have "round_dp dp (of_int n / 10 ^ d) = of_int (n * 10 ^ (dp - d)) / 10 ^ dp"
    by (simp add: round_dp_def)
  also have "\<dots> = of_int n / 10 ^ d" by (simp add: p)
  finally show ?thesis .
qed

lemma divisExp_of_nat: "divisExp (JNum (Fin (of_nat d))) = d"
  by simp

lemma valid_of_nat: "0 < d \<Longrightarrow> fst (isValidCoinDivisibility (JNum (Fin (of_nat d))))"
  by (simp add: isValidCoinDivisibility_def)

lemma round_dp_below_precision: "round_dp dp (1 / 10 ^ Suc dp) = 0"
proof -
  have "(1 / 10 ^ Suc dp :: rat) * 10 ^ dp = 1 / 10" by simp
  then have "round_half_up (1 / 10 ^ Suc dp * 10 ^ dp) = round_half_up (1 / 10)" by simp
  also have "\<dots> = 0" by (simp add: round_half_up_def)
  finally show ?thesis by (simp add: round_dp_def)
qed

text \<open>
  C1, as stated, fails for a divisibility above the library's \<open>DECIMAL_PLACES\<close>: the
  division in \<open>integerToDecimal\<close> is rounded to that many decimal places. With the
  default setting of 20, the amount \<open>1e-21\<close> (which has 21 decimal digits) and the valid
  divisibility 21 give the integer string \<open>'1'\<close> and then \<open>'0'\<close>, which differs from
  the amount by more than half a unit of the 21st decimal place. (Whatever the setting
  is, one unit of the next decimal place is rounded to 0, as \<open>round_dp_below_precision\<close>
  shows.)
\<close>

theorem roundtrip_counterexample:
  "fst (isValidCoinDivisibility (JNum (Fin 21)))
   \<and> bigNumber exampleLib (JStr ''1e-21'') = BFin (1 / 10 ^ 21)
   \<and> (1 / 10 ^ 21 :: rat) * 10 ^ 21 = 1
   \<and> decimalToInteger exampleLib (JStr ''1e-21'') (JNum (Fin 21)) = Inr (JStr ''1'')
   \<and> integerToDecimal exampleLib (JStr ''1'') (JNum (Fin 21)) None = (Inr (JStr ''0''), [])
   \<and> bigNumber exampleLib (JStr ''0'') = BFin 0
   \<and> \<not> \<bar>0 - (1 / 10 ^ 21 :: rat)\<bar> \<le> 1 / (2 * 10 ^ 21)"
  by (simp add: decimalToInteger_def integerToDecimal_def integerToDecimal_try_def
      exampleLib_def isValidCoinDivisibility_def round_half_up_def round_dp_def)

text \<open>
  C1, amended. For every positive numeric amount and every valid divisibility \<open>d\<close> that
  does not exceed the library's \<open>DECIMAL_PLACES\<close> setting, converting the amount with
  \<open>decimalToInteger(amount, d)\<close> and back with \<open>integerToDecimal(result, d)\<close> yields a
  decimal within half a unit of the \<open>d\<close>-th decimal place of the amount, and the amount
  itself whenever it has at most \<open>d\<close> decimal digits. (The integer string is read back
  by the library as the integer it prints.)
\<close>

theorem roundtrip_within_decimal_places:
  assumes val: "isNumberOrString val" "bigNumber lib val = BFin a" "0 < a"
    and d: "0 < d" "d \<le> DECIMAL_PLACES lib"
    and n: "n = round_half_up (a * 10 ^ d)"
    and reread: "bigNumber lib (JStr (bnToString lib (BFin (of_int n)))) = BFin (of_int n)"
  shows "decimalToInteger lib val (JNum (Fin (of_nat d)))
           = Inr (JStr (bnToString lib (BFin (of_int n))))
    \<and> integerToDecimal lib (JStr (bnToString lib (BFin (of_int n)))) (JNum (Fin (of_nat d))) opt
           = (Inr (JStr (bnToString lib (BFin (of_int n / 10 ^ d)))), [])
    \<and> \<bar>of_int n / 10 ^ d - a\<bar> \<le> 1 / (2 * 10 ^ d)
    \<and> ((\<exists>k::int. a * 10 ^ d = of_int k) \<longrightarrow> of_int n / 10 ^ d = a)"
proof -
  have out: "decimalToInteger lib val (JNum (Fin (of_nat d)))
           = Inr (JStr (bnToString lib (BFin (of_int n))))"
    using val d n valid_of_nat [of d]
    by (simp add: decimalToInteger_def)
  have attempt: "integerToDecimal_try lib (JStr (bnToString lib (BFin (of_int n))))
               (JNum (Fin (of_nat d)))
             = Inr (JStr (bnToString lib (BFin (of_int n / 10 ^ d))))"
    using d valid_of_nat [of d] reread round_dp_exact [of d "DECIMAL_PLACES lib" n]
    by (simp add: integerToDecimal_try_def)
  have ret: "integerToDecimal lib (JStr (bnToString lib (BFin (of_int n))))
                (JNum (Fin (of_nat d))) opt
           = (Inr (JStr (bnToString lib (BFin (of_int n / 10 ^ d)))), [])"
    by (simp add: integerToDecimal_def attempt)
  have "\<bar>of_int n - a * 10 ^ d\<bar> \<le> 1 / 2"
    unfolding n by (rule round_half_up_close)
  then have "\<bar>of_int n - a * 10 ^ d\<bar> / 10 ^ d \<le> (1 / 2) / 10 ^ d"
    by (rule divide_right_mono) simp
  moreover have "\<bar>of_int n - a * 10 ^ d\<bar> / (10::rat) ^ d = \<bar>of_int n / 10 ^ d - a\<bar>"
  proof -
    have "of_int n / (10::rat) ^ d - a = (of_int n - a * 10 ^ d) / 10 ^ d"
      by (simp add: diff_divide_distrib)
    then show ?thesis by (simp add: abs_divide)
  qed
  ultimately have close: "\<bar>of_int n / 10 ^ d - a\<bar> \<le> 1 / (2 * 10 ^ d)"
    by simp
  have exact: "(\<exists>k::int. a * 10 ^ d = of_int k) \<longrightarrow> of_int n / 10 ^ d = a"
  proof
    assume "\<exists>k::int. a * 10 ^ d = of_int k"
    then obtain k :: int where k: "a * 10 ^ d = of_int k" by blast
    then have "n = k" using n round_half_up_of_int by simp
    then have "of_int n / (10::rat) ^ d = a * 10 ^ d / 10 ^ d" using k by simp
    then show "of_int n / 10 ^ d = a" by simp
  qed
  from out ret close exact show ?thesis by blast
qed

theorem roundtrip_within_decimal_places_witness:
  "isNumberOrString (JNum (Fin (3 / 2))) \<and> bigNumber exampleLib (JNum (Fin (3 / 2))) = BFin (3 / 2)
   \<and> (0::rat) < 3 / 2 \<and> (0::nat) < 2 \<and> 2 \<le> DECIMAL_PLACES exampleLib
   \<and> 150 = round_half_up (3 / 2 * 10 ^ 2)
   \<and> bigNumber exampleLib (JStr (bnToString exampleLib (BFin 150))) = BFin 150
   \<and> decimalToInteger exampleLib (JNum (Fin (3 / 2))) (JNum (Fin 2)) = Inr (JStr ''150'')
   \<and> integerToDecimal exampleLib (JStr ''150'') (JNum (Fin 2)) None = (Inr (JStr ''1.5''), [])"
  using roundtrip_within_decimal_places [where val = "JNum (Fin (3 / 2))" and lib = exampleLib
      and a = "3 / 2" and d = 2 and n = 150 and opt = None]
  by (simp add: exampleLib_def round_half_up_def)

text \<open>
  C6. When \<open>integerToDecimal\<close> meets a validation failure (the value is neither a number
  nor a string, or the divisibility is invalid) or a NaN result, then with the default
  options, or with \<open>returnUndefinedOnError\<close> true, it logs the error and returns
  \<open>undefined\<close>; with \<open>returnUndefinedOnError\<close> false it throws that same error and
  logs nothing.
\<close>

theorem integerToDecimal_failure:
  assumes "\<not> isNumberOrString val
      \<or> \<not> fst (isValidCoinDivisibility divisibility)
      \<or> dividedBy (DECIMAL_PLACES lib) (bigNumber lib val) (BFin (10 ^ divisExp divisibility))
          = BNaN"
  shows "\<exists>e. integerToDecimal lib val divisibility None = (Inr JUndefined, [e])
      \<and> integerToDecimal lib val divisibility (Some (JBool True)) = (Inr JUndefined, [e])
      \<and> integerToDecimal lib val divisibility (Some (JBool False)) = (Inl e, [])"
proof -
  have "\<exists>e. integerToDecimal_try lib val divisibility = Inl e"
    using assms unfolding integerToDecimal_try_def Let_def
    by (cases "isNumberOrString val"; cases "fst (isValidCoinDivisibility divisibility)"; simp)
  then obtain e where "integerToDecimal_try lib val divisibility = Inl e" by blast
  then show ?thesis
    by (simp add: integerToDecimal_def)
qed

theorem integerToDecimal_failure_witness:
  "\<not> isNumberOrString JNull
   \<and> integerToDecimal exampleLib JNull (JNum (Fin 8)) None
       = (Inr JUndefined, [Error ''The value must be provided as a number or a string.''])
   \<and> integerToDecimal exampleLib JNull (JNum (Fin 8)) (Some (JBool False))
       = (Inl (Error ''The value must be provided as a number or a string.''), [])"
  using integerToDecimal_failure [of JNull "JNum (Fin 8)" exampleLib]
  by (simp add: integerToDecimal_def integerToDecimal_try_def)

section \<open>Properties of the currency converter\<close>

lemma toUpperCase_examples:
  "toUpperCase exampleHost ''TBTC'' = ''TBTC''"
  "toUpperCase exampleHost ''btc'' = ''BTC''"
  "toUpperCase exampleHost ''XYZ'' = ''XYZ''"
  "toUpperCase exampleHost ''A'' = ''A''"
  by (simp_all add: exampleHost_def asciiToUpperCase_examples)

lemma num_truthy_iff: "num_truthy n = (n \<noteq> Fin 0 \<and> n \<noteq> NaN)"
  by (cases n) auto

lemma rate_truthy_iff:
  "rate_truthy x = (x = Inherited \<or> (\<exists>n. x = Own n \<and> n \<noteq> Fin 0 \<and> n \<noteq> NaN))"
  by (cases x) (auto simp add: num_truthy_iff)

lemma readRate_own: "map_of exchangeRates k = Some n \<Longrightarrow> readRate exchangeRates k = Own n"
  by (simp add: readRate_def)

lemma readRate_missing:
  "map_of exchangeRates k = None \<Longrightarrow> k \<notin> set objectPrototypeProps \<Longrightarrow>
   readRate exchangeRates k = Missing"
  by (simp add: readRate_def)

lemma readRate_Own_iff: "(readRate exchangeRates k = Own n) = (map_of exchangeRates k = Some n)"
  by (auto simp add: readRate_def split: option.splits)

lemma getCurMeta_nonempty: "getCurMeta h reg (JStr c) = Inr m \<Longrightarrow> c \<noteq> []"
  by (auto simp add: getCurMeta_def)

lemma getExchangeRate_meta:
  assumes "getCurMeta h reg (JStr c) = Inr m"
  shows "getExchangeRate h reg exchangeRates (JStr c)
           = Inr (readRate exchangeRates (if isFiat m then c else ensureMainnetCode reg c))"
  using assms getCurMeta_nonempty [OF assms]
  by (simp add: getExchangeRate_def isFiatCur_def)

lemma getExchangeRate_recognized:
  assumes "getCurMeta h reg (JStr c) = Inr m" and "isFiat m \<or> ensureMainnetCode reg c = c"
  shows "getExchangeRate h reg exchangeRates (JStr c) = Inr (readRate exchangeRates c)"
  using assms(2) by (auto simp add: getExchangeRate_meta [OF assms(1)])



lemma convertCurrency_distinct:
  assumes "isNumberOrString amount" "isString amount \<longrightarrow> bigNumber lib amount \<noteq> BNaN"
      "amount \<noteq> JNum NaN"
    and "fc = ensureMainnetCode reg (toUpperCase h f)"
    and "tc = ensureMainnetCode reg (toUpperCase h t)"
    and "fc \<noteq> tc"
  shows "convertCurrency h lib fl reg exchangeRates amount (JStr f) (JStr t) =
    (if \<not> rate_truthy (readRate exchangeRates fc) then
       Inl (NoExchangeRateDataError
             (''We do not have exchange rate data for '' @ toUpperCase h f @ ''.''))
     else if \<not> rate_truthy (readRate exchangeRates tc) then
       Inl (NoExchangeRateDataError
             (''We do not have exchange rate data for '' @ toUpperCase h t @ ''.''))
     else
       (case getExchangeRate h reg exchangeRates (JStr fc) of
          Inl e \<Rightarrow> Inl e
        | Inr fromRate \<Rightarrow>
            (case getExchangeRate h reg exchangeRates (JStr tc) of
               Inl e \<Rightarrow> Inl e
             | Inr toRate \<Rightarrow>
                 (case amount of
                    JNum a \<Rightarrow>
                      Inr (JNum (num_mul fl (num_div fl a (rateNum fromRate)) (rateNum toRate)))
                  | _ \<Rightarrow>
                      Inr (JStr (bnToString lib
                        (multipliedBy
                           (dividedBy (DECIMAL_PLACES lib) (bigNumber lib amount)
                              (bigNumber lib (rateVal fromRate)))
                           (bigNumber lib (rateVal toRate)))))))))"
proof (cases "isString amount")
  case True
  then have "bigNumber lib amount \<noteq> BNaN" using assms(2) by simp
  then show ?thesis
    unfolding convertCurrency_def Let_def
    using assms(1,3,6) unfolding assms(4,5) by simp
next
  case False
  then show ?thesis
    unfolding convertCurrency_def Let_def
    using assms(1,3,6) unfolding assms(4,5) by simp
qed

lemma valid_number: 
  "isNumberOrString (JNum (Fin r))"
  "isString (JNum (Fin r)) \<longrightarrow> bigNumber lib (JNum (Fin r)) \<noteq> BNaN"
  "JNum (Fin r) \<noteq> JNum NaN"
  by simp_all

lemma example_getCurMeta_BTC:
  "getCurMeta exampleHost exampleRegistry (JStr ''BTC'') =
     Inr \<lparr>isFiat = False, isWalletCur = True, isCryptoListingCur = True,
          curData = JObj [(''code'', JStr ''BTC''), (''testnetCode'', JStr ''TBTC''),
                          (''coinDivisibility'', JNum (Fin 8))]\<rparr>"
  by (simp add: getCurMeta_def exampleRegistry_def toUpperCase_BTC Let_def)

lemma example_getCurMeta_USD:
  "getCurMeta exampleHost exampleRegistry (JStr ''USD'') =
     Inr \<lparr>isFiat = True, isWalletCur = False, isCryptoListingCur = False,
          curData = JObj [(''code'', JStr ''USD'')]\<rparr>"
  by (simp add: getCurMeta_def exampleRegistry_def toUpperCase_USD Let_def)

lemma example_getCurMeta_XYZ:
  "getCurMeta exampleHost exampleRegistry (JStr ''XYZ'') = Inl UnrecognizedCurrencyError"
  by (simp add: getCurMeta_def exampleRegistry_def toUpperCase_examples Let_def)

lemma example_codes:
  "ensureMainnetCode exampleRegistry (toUpperCase exampleHost ''btc'') = ''BTC''"
  "ensureMainnetCode exampleRegistry (toUpperCase exampleHost ''USD'') = ''USD''"
  "ensureMainnetCode exampleRegistry ''BTC'' = ''BTC''"
  "ensureMainnetCode exampleRegistry ''USD'' = ''USD''"
  "ensureMainnetCode exampleRegistry (toUpperCase exampleHost ''BTC'') = ''BTC''"
  "ensureMainnetCode exampleRegistry (toUpperCase exampleHost ''XYZ'') = ''XYZ''"
  by (simp_all add: exampleRegistry_def toUpperCase_usd toUpperCase_USD toUpperCase_BTC
      toUpperCase_examples)

lemma example_rate_zero:
  "convertCurrency exampleHost exampleLib Fin exampleRegistry [(''BTC'', Fin 1), (''USD'', Fin 0)]
        (JNum (Fin 1)) (JStr ''BTC'') (JStr ''USD'')
       = Inl (NoExchangeRateDataError ''We do not have exchange rate data for USD.'')"
proof -
  have ne: "''BTC'' \<noteq> ''USD''" by simp
  show ?thesis
    by (simp add: convertCurrency_distinct [OF valid_number example_codes(5) [symmetric]
          example_codes(2) [symmetric] ne] readRate_def toUpperCase_USD)
qed

lemma example_unrecognized:
  "convertCurrency exampleHost exampleLib Fin exampleRegistry [(''BTC'', Fin 1), (''XYZ'', Fin 2)]
        (JNum (Fin 1)) (JStr ''BTC'') (JStr ''XYZ'') = Inl UnrecognizedCurrencyError"
proof -
  have ne: "''BTC'' \<noteq> ''XYZ''" by simp
  have gf: "getExchangeRate exampleHost exampleRegistry [(''BTC'', Fin 1), (''XYZ'', Fin 2)]
              (JStr ''BTC'') = Inr (Own (Fin 1))"
    using getExchangeRate_recognized [OF example_getCurMeta_BTC, of "[(''BTC'', Fin 1), (''XYZ'', Fin 2)]"]
      example_codes(3) by (simp add: readRate_def)
  have gt: "getExchangeRate exampleHost exampleRegistry [(''BTC'', Fin 1), (''XYZ'', Fin 2)]
              (JStr ''XYZ'') = Inl UnrecognizedCurrencyError"
    by (simp add: getExchangeRate_def isFiatCur_def example_getCurMeta_XYZ)
  show ?thesis
    by (simp add: convertCurrency_distinct [OF valid_number example_codes(5) [symmetric]
          example_codes(6) [symmetric] ne] readRate_def gf gt)
qed

lemma chain_getCurMeta_B:
  "getCurMeta exampleHost chainRegistry (JStr ''B'') =
     Inr \<lparr>isFiat = False, isWalletCur = True, isCryptoListingCur = False,
          curData = JObj [(''code'', JStr ''B''), (''coinDivisibility'', JNum (Fin 8))]\<rparr>"
proof -
  have "toUpperCase exampleHost ''B'' = ''B''"
    unfolding exampleHost_def by simp code_simp
  then show ?thesis by (simp add: getCurMeta_def chainRegistry_def Let_def)
qed

lemma chain_getCurMeta_USD:
  "getCurMeta exampleHost chainRegistry (JStr ''USD'') =
     Inr \<lparr>isFiat = True, isWalletCur = False, isCryptoListingCur = False,
          curData = JObj [(''code'', JStr ''USD'')]\<rparr>"
  by (simp add: getCurMeta_def chainRegistry_def toUpperCase_USD Let_def)

lemma chain_codes:
  "ensureMainnetCode chainRegistry (toUpperCase exampleHost ''A'') = ''B''"
  "ensureMainnetCode chainRegistry (toUpperCase exampleHost ''USD'') = ''USD''"
  "ensureMainnetCode chainRegistry ''B'' = ''C''"
  by (simp_all add: chainRegistry_def toUpperCase_USD toUpperCase_examples)

lemma chain_from_rate:
  "getExchangeRate exampleHost chainRegistry [(''B'', Fin 1), (''C'', Fin 0), (''USD'', Fin 2)]
     (JStr ''B'') = Inr (Own (Fin 0))"
  using getExchangeRate_meta [OF chain_getCurMeta_B,
      of "[(''B'', Fin 1), (''C'', Fin 0), (''USD'', Fin 2)]"]
  by (simp add: chain_codes readRate_def)

lemma chain_to_rate:
  "getExchangeRate exampleHost chainRegistry [(''B'', Fin 1), (''C'', Fin 0), (''USD'', Fin 2)]
     (JStr ''USD'') = Inr (Own (Fin 2))"
  using getExchangeRate_meta [OF chain_getCurMeta_USD,
      of "[(''B'', Fin 1), (''C'', Fin 0), (''USD'', Fin 2)]"]
  by (simp add: readRate_def)

lemma chain_convert:
  "convertCurrency exampleHost exampleLib Fin chainRegistry
      [(''B'', Fin 1), (''C'', Fin 0), (''USD'', Fin 2)]
      (JNum (Fin 1)) (JStr ''A'') (JStr ''USD'') = Inr (JNum PInf)"
proof -
  have ne: "''B'' \<noteq> ''USD''" by simp
  show ?thesis
    by (simp add: convertCurrency_distinct [OF valid_number chain_codes(1) [symmetric]
          chain_codes(2) [symmetric] ne] readRate_def chain_from_rate chain_to_rate)
qed

text \<open>
  C4. For a valid amount (a number other than NaN, or a string the library does not read
  as NaN), \<open>convertCurrency\<close> returns the amount as it is whenever the two codes are
  equal after upper-casing and normalization to the mainnet code, whatever the
  exchange-rate cache holds; so \<open>convertCurrency(amount, X, X)\<close> is the amount for every
  code \<open>X\<close>, and so is the conversion from TBTC to BTC.
\<close>

theorem convertCurrency_identity:
  assumes "isNumberOrString amount"
    and "isString amount \<longrightarrow> bigNumber lib amount \<noteq> BNaN"
    and "amount \<noteq> JNum NaN"
  shows "(ensureMainnetCode reg (toUpperCase h f) = ensureMainnetCode reg (toUpperCase h t) \<longrightarrow>
           (\<forall>exchangeRates.
              convertCurrency h lib fl reg exchangeRates amount (JStr f) (JStr t) = Inr amount))
    \<and> (\<forall>exchangeRates.
          convertCurrency h lib fl reg exchangeRates amount (JStr x) (JStr x) = Inr amount)
    \<and> (toUpperCase h ''TBTC'' = ''TBTC'' \<and> toUpperCase h ''BTC'' = ''BTC'' \<longrightarrow>
         (\<forall>exchangeRates.
            convertCurrency h lib fl exampleRegistry exchangeRates amount
              (JStr ''TBTC'') (JStr ''BTC'') = Inr amount))"
  using assms
  by (auto simp add: convertCurrency_def Let_def exampleRegistry_def)

theorem convertCurrency_identity_witness:
  "isNumberOrString (JStr ''1.5'')
   \<and> convertCurrency exampleHost exampleLib Fin exampleRegistry [] (JStr ''1.5'')
        (JStr ''btc'') (JStr ''TBTC'') = Inr (JStr ''1.5'')
   \<and> convertCurrency exampleHost exampleLib Fin exampleRegistry [] (JStr ''1.5'')
        (JStr ''TBTC'') (JStr ''BTC'') = Inr (JStr ''1.5'')"
  using convertCurrency_identity [where amount = "JStr ''1.5''" and lib = exampleLib
      and reg = exampleRegistry and f = "''btc''" and t = "''TBTC''" and fl = Fin
      and h = exampleHost]
  by (simp add: exampleLib_def exampleRegistry_def toUpperCase_examples toUpperCase_BTC)

text \<open>
  C5, as stated, fails. A rate that is in the cache but is 0 is taken as missing: with
  the cache \<open>{BTC: 1, USD: 0}\<close> both rates are present, yet converting 1 BTC to USD
  throws \<open>NoExchangeRateDataError\<close> instead of returning \<open>1 / 1 * 0\<close>. With both rates
  present and nonzero the call can still throw, since the rates are read through
  \<open>getExchangeRate\<close>, which rejects a code in no registry: with \<open>{BTC: 1, XYZ: 2}\<close>
  converting 1 BTC to XYZ throws \<open>UnrecognizedCurrencyError\<close>. And \<open>getExchangeRate\<close>
  normalizes the normalized code once more, so the rate divided by need not be the rate
  of the normalized code: where A is normalized to B and B to C, with
  \<open>{B: 1, C: 0, USD: 2}\<close> converting 1 A to USD returns \<open>Infinity\<close>, not \<open>1 / 1 * 2\<close>.
\<close>

theorem convertCurrency_rate_counterexample:
  "map_of [(''BTC'', Fin 1), (''USD'', Fin 0)] ''BTC'' = Some (Fin 1)
   \<and> map_of [(''BTC'', Fin 1), (''USD'', Fin 0)] ''USD'' = Some (Fin 0)
   \<and> ensureMainnetCode exampleRegistry (toUpperCase exampleHost ''BTC'')
       \<noteq> ensureMainnetCode exampleRegistry (toUpperCase exampleHost ''USD'')
   \<and> convertCurrency exampleHost exampleLib Fin exampleRegistry
        [(''BTC'', Fin 1), (''USD'', Fin 0)] (JNum (Fin 1)) (JStr ''BTC'') (JStr ''USD'')
       = Inl (NoExchangeRateDataError ''We do not have exchange rate data for USD.'')
   \<and> convertCurrency exampleHost exampleLib Fin exampleRegistry
        [(''BTC'', Fin 1), (''USD'', Fin 0)] (JNum (Fin 1)) (JStr ''BTC'') (JStr ''USD'')
       \<noteq> Inr (JNum (num_mul Fin (num_div Fin (Fin 1) (Fin 1)) (Fin 0)))
   \<and> ensureMainnetCode exampleRegistry (toUpperCase exampleHost ''BTC'')
       \<noteq> ensureMainnetCode exampleRegistry (toUpperCase exampleHost ''XYZ'')
   \<and> convertCurrency exampleHost exampleLib Fin exampleRegistry
        [(''BTC'', Fin 1), (''XYZ'', Fin 2)] (JNum (Fin 1)) (JStr ''BTC'') (JStr ''XYZ'')
       = Inl UnrecognizedCurrencyError
   \<and> ensureMainnetCode chainRegistry (toUpperCase exampleHost ''A'') = ''B''
   \<and> ensureMainnetCode chainRegistry (toUpperCase exampleHost ''USD'') = ''USD''
   \<and> map_of [(''B'', Fin 1), (''C'', Fin 0), (''USD'', Fin 2)] ''B'' = Some (Fin 1)
   \<and> map_of [(''B'', Fin 1), (''C'', Fin 0), (''USD'', Fin 2)] ''USD'' = Some (Fin 2)
   \<and> convertCurrency exampleHost exampleLib Fin chainRegistry
        [(''B'', Fin 1), (''C'', Fin 0), (''USD'', Fin 2)] (JNum (Fin 1)) (JStr ''A'') (JStr ''USD'')
       = Inr (JNum PInf)
   \<and> convertCurrency exampleHost exampleLib Fin chainRegistry
        [(''B'', Fin 1), (''C'', Fin 0), (''USD'', Fin 2)] (JNum (Fin 1)) (JStr ''A'') (JStr ''USD'')
       \<noteq> Inr (JNum (num_mul Fin (num_div Fin (Fin 1) (Fin 1)) (Fin 2)))"
  by (simp add: example_rate_zero example_unrecognized chain_convert example_codes chain_codes)

text \<open>
  C5, amended. For a valid amount and two codes that remain distinct after mainnet
  normalization, \<open>convertCurrency\<close> throws \<open>NoExchangeRateDataError\<close> if reading either
  normalized code from the cache gives \<open>undefined\<close> (the rate is absent) or a falsy rate
  (0 or NaN); otherwise, when both normalized codes have a rate of their own in the
  cache, are recognized currencies, and each is a fiat currency or is unchanged by a
  further mainnet normalization, it returns \<open>amount / rate(from) * rate(to)\<close>: in
  floating point for a number, with the arbitrary-precision library and as a string for
  a string.
\<close>

theorem convertCurrency_rates:
  assumes valid: "isNumberOrString amount" "isString amount \<longrightarrow> bigNumber lib amount \<noteq> BNaN"
      "amount \<noteq> JNum NaN"
    and fc: "fc = ensureMainnetCode reg (toUpperCase h f)"
    and tc: "tc = ensureMainnetCode reg (toUpperCase h t)"
    and ne: "fc \<noteq> tc"
    and r: "r = convertCurrency h lib fl reg exchangeRates amount (JStr f) (JStr t)"
  shows "((readRate exchangeRates fc = Missing \<or> readRate exchangeRates tc = Missing) \<longrightarrow>
            (\<exists>msg. r = Inl (NoExchangeRateDataError msg)))
    \<and> (((map_of exchangeRates fc = None \<and> fc \<notin> set objectPrototypeProps)
         \<or> (map_of exchangeRates tc = None \<and> tc \<notin> set objectPrototypeProps)) \<longrightarrow>
            (\<exists>msg. r = Inl (NoExchangeRateDataError msg)))
    \<and> ((\<not> rate_truthy (readRate exchangeRates fc) \<or> \<not> rate_truthy (readRate exchangeRates tc))
          \<longrightarrow> (\<exists>msg. r = Inl (NoExchangeRateDataError msg)))
    \<and> ((map_of exchangeRates fc = Some (Fin 0) \<or> map_of exchangeRates fc = Some NaN
         \<or> map_of exchangeRates tc = Some (Fin 0) \<or> map_of exchangeRates tc = Some NaN) \<longrightarrow>
            (\<exists>msg. r = Inl (NoExchangeRateDataError msg)))
    \<and> (\<forall>rf rt mf mt.
          map_of exchangeRates fc = Some rf \<and> num_truthy rf
          \<and> map_of exchangeRates tc = Some rt \<and> num_truthy rt
          \<and> getCurMeta h reg (JStr fc) = Inr mf \<and> getCurMeta h reg (JStr tc) = Inr mt
          \<and> (isFiat mf \<or> ensureMainnetCode reg fc = fc)
          \<and> (isFiat mt \<or> ensureMainnetCode reg tc = tc) \<longrightarrow>
            (\<forall>a. amount = JNum a \<longrightarrow> r = Inr (JNum (num_mul fl (num_div fl a rf) rt)))
          \<and> (isString amount \<longrightarrow>
               r = Inr (JStr (bnToString lib
                     (multipliedBy
                        (dividedBy (DECIMAL_PLACES lib) (bigNumber lib amount)
                           (bigNumber lib (JNum rf)))
                        (bigNumber lib (JNum rt)))))))"
proof -
  note unf = convertCurrency_distinct [OF valid fc tc ne, of fl exchangeRates]
  have falsy: "(\<not> rate_truthy (readRate exchangeRates fc) \<or> \<not> rate_truthy (readRate exchangeRates tc))
      \<longrightarrow> (\<exists>msg. r = Inl (NoExchangeRateDataError msg))"
    unfolding r unf by simp
  have missing: "(readRate exchangeRates fc = Missing \<or> readRate exchangeRates tc = Missing) \<longrightarrow>
            (\<exists>msg. r = Inl (NoExchangeRateDataError msg))"
  proof
    assume "readRate exchangeRates fc = Missing \<or> readRate exchangeRates tc = Missing"
    then have "\<not> rate_truthy (readRate exchangeRates fc) \<or> \<not> rate_truthy (readRate exchangeRates tc)"
      by auto
    with falsy show "\<exists>msg. r = Inl (NoExchangeRateDataError msg)" by blast
  qed
  have absent: "((map_of exchangeRates fc = None \<and> fc \<notin> set objectPrototypeProps)
         \<or> (map_of exchangeRates tc = None \<and> tc \<notin> set objectPrototypeProps)) \<longrightarrow>
            (\<exists>msg. r = Inl (NoExchangeRateDataError msg))"
    using missing readRate_missing by blast
  have zero: "(map_of exchangeRates fc = Some (Fin 0) \<or> map_of exchangeRates fc = Some NaN
         \<or> map_of exchangeRates tc = Some (Fin 0) \<or> map_of exchangeRates tc = Some NaN) \<longrightarrow>
            (\<exists>msg. r = Inl (NoExchangeRateDataError msg))"
  proof
    assume "map_of exchangeRates fc = Some (Fin 0) \<or> map_of exchangeRates fc = Some NaN
         \<or> map_of exchangeRates tc = Some (Fin 0) \<or> map_of exchangeRates tc = Some NaN"
    then have "\<not> rate_truthy (readRate exchangeRates fc) \<or> \<not> rate_truthy (readRate exchangeRates tc)"
      by (auto simp add: readRate_def)
    with falsy show "\<exists>msg. r = Inl (NoExchangeRateDataError msg)" by blast
  qed
  have present: "(\<forall>a. amount = JNum a \<longrightarrow> r = Inr (JNum (num_mul fl (num_div fl a rf) rt)))
          \<and> (isString amount \<longrightarrow>
               r = Inr (JStr (bnToString lib
                     (multipliedBy
                        (dividedBy (DECIMAL_PLACES lib) (bigNumber lib amount)
                           (bigNumber lib (JNum rf)))
                        (bigNumber lib (JNum rt))))))"
    if hyp: "map_of exchangeRates fc = Some rf \<and> num_truthy rf
          \<and> map_of exchangeRates tc = Some rt \<and> num_truthy rt
          \<and> getCurMeta h reg (JStr fc) = Inr mf \<and> getCurMeta h reg (JStr tc) = Inr mt
          \<and> (isFiat mf \<or> ensureMainnetCode reg fc = fc)
          \<and> (isFiat mt \<or> ensureMainnetCode reg tc = tc)"
    for rf rt mf mt
  proof -
    have rdf: "readRate exchangeRates fc = Own rf" using hyp readRate_own by blast
    have rdt: "readRate exchangeRates tc = Own rt" using hyp readRate_own by blast
    have gf: "getExchangeRate h reg exchangeRates (JStr fc) = Inr (Own rf)"
      using hyp getExchangeRate_recognized [of h reg fc mf exchangeRates] rdf by simp
    have gt: "getExchangeRate h reg exchangeRates (JStr tc) = Inr (Own rt)"
      using hyp getExchangeRate_recognized [of h reg tc mt exchangeRates] rdt by simp
    have tr: "rate_truthy (readRate exchangeRates fc)" "rate_truthy (readRate exchangeRates tc)"
      using hyp rdf rdt by simp_all
    have rest: "r = (case amount of
                 JNum a \<Rightarrow> Inr (JNum (num_mul fl (num_div fl a rf) rt))
               | _ \<Rightarrow> Inr (JStr (bnToString lib
                     (multipliedBy
                        (dividedBy (DECIMAL_PLACES lib) (bigNumber lib amount)
                           (bigNumber lib (JNum rf)))
                        (bigNumber lib (JNum rt))))))"
      unfolding r unf using tr by (cases amount) (simp_all add: gf gt)
    show ?thesis
      unfolding rest by (cases amount) simp_all
  qed
  from missing absent falsy zero present show ?thesis by blast
qed

theorem convertCurrency_rates_witness:
  "convertCurrency exampleHost exampleLib Fin exampleRegistry [(''BTC'', Fin 1), (''USD'', Fin 2)]
        (JNum (Fin (3 / 2))) (JStr ''btc'') (JStr ''USD'') = Inr (JNum (Fin 3))
   \<and> (\<exists>msg. convertCurrency exampleHost exampleLib Fin exampleRegistry [(''BTC'', Fin 1)]
        (JNum (Fin (3 / 2))) (JStr ''btc'') (JStr ''USD'') = Inl (NoExchangeRateDataError msg))"
proof -
  have ne: "''BTC'' \<noteq> ''USD''" by simp
  note t1 = convertCurrency_rates [where fl = Fin and lib = exampleLib
      and exchangeRates = "[(''BTC'', Fin 1), (''USD'', Fin 2)]",
      OF valid_number example_codes(1) [symmetric] example_codes(2) [symmetric] ne refl]
  note t2 = convertCurrency_rates [where fl = Fin and lib = exampleLib
      and exchangeRates = "[(''BTC'', Fin 1)]",
      OF valid_number example_codes(1) [symmetric] example_codes(2) [symmetric] ne refl]
  have present: "map_of [(''BTC'', Fin 1), (''USD'', Fin 2)] ''BTC'' = Some (Fin 1) \<and> num_truthy (Fin 1)
          \<and> map_of [(''BTC'', Fin 1), (''USD'', Fin 2)] ''USD'' = Some (Fin 2) \<and> num_truthy (Fin 2)
          \<and> getCurMeta exampleHost exampleRegistry (JStr ''BTC'') = Inr \<lparr>isFiat = False,
               isWalletCur = True, isCryptoListingCur = True,
               curData = JObj [(''code'', JStr ''BTC''), (''testnetCode'', JStr ''TBTC''),
                          (''coinDivisibility'', JNum (Fin 8))]\<rparr>
          \<and> getCurMeta exampleHost exampleRegistry (JStr ''USD'') = Inr \<lparr>isFiat = True,
               isWalletCur = False, isCryptoListingCur = False,
               curData = JObj [(''code'', JStr ''USD'')]\<rparr>
          \<and> ensureMainnetCode exampleRegistry ''BTC'' = ''BTC''
          \<and> ensureMainnetCode exampleRegistry ''USD'' = ''USD''"
    using example_getCurMeta_BTC example_getCurMeta_USD example_codes(3,4) by simp
  have "convertCurrency exampleHost exampleLib Fin exampleRegistry
        [(''BTC'', Fin 1), (''USD'', Fin 2)] (JNum (Fin (3 / 2))) (JStr ''btc'') (JStr ''USD'')
        = Inr (JNum (num_mul Fin (num_div Fin (Fin (3 / 2)) (Fin 1)) (Fin 2)))"
    using t1 present by blast
  then have a: "convertCurrency exampleHost exampleLib Fin exampleRegistry
        [(''BTC'', Fin 1), (''USD'', Fin 2)] (JNum (Fin (3 / 2))) (JStr ''btc'') (JStr ''USD'')
        = Inr (JNum (Fin 3))"
    by simp
  have "map_of [(''BTC'', Fin 1)] ''USD'' = None \<and> ''USD'' \<notin> set objectPrototypeProps"
    by (simp add: objectPrototypeProps_def)
  then have b: "\<exists>msg. convertCurrency exampleHost exampleLib Fin exampleRegistry [(''BTC'', Fin 1)]
        (JNum (Fin (3 / 2))) (JStr ''btc'') (JStr ''USD'') = Inl (NoExchangeRateDataError msg)"
    using t2 by blast
  from a b show ?thesis by blast
qed




section \<open>Properties of the exchange-rate cache\<close>

lemma set_setAdd: "set (setAdd xs k) = insert k (set xs)"
  by (auto simp add: setAdd_def)

lemma distinct_setAdd: "distinct xs \<Longrightarrow> distinct (setAdd xs k)"
  by (simp add: setAdd_def)

lemma set_foldl_setAdd:
  "set (foldl (\<lambda>changed cur. if P cur then setAdd changed cur else changed) acc ks)
     = set acc \<union> {k \<in> set ks. P k}"
  by (induction ks arbitrary: acc) (auto simp add: set_setAdd)

lemma distinct_foldl_setAdd:
  "distinct acc \<Longrightarrow>
   distinct (foldl (\<lambda>changed cur. if P cur then setAdd changed cur else changed) acc ks)"
  by (induction ks arbitrary: acc) (simp_all add: distinct_setAdd)

lemma set_changedCodes_keys:
  "set (changedCodes old data) =
     {k \<in> set (map fst old). strict_neq (readRate old k) (readRate data k)}
     \<union> {k \<in> set (map fst data). strict_neq (readRate data k) (readRate old k)}"
  unfolding changedCodes_def Let_def
  by (simp only: set_foldl_setAdd) simp

lemma distinct_changedCodes: "distinct (changedCodes old data)"
  unfolding changedCodes_def Let_def
  by (intro distinct_foldl_setAdd) simp

lemma strict_neq_sym: "strict_neq a b = strict_neq b a"
  by (cases a; cases b) auto

lemma strict_neq_no_key:
  assumes "k \<notin> set (map fst old)" and "k \<notin> set (map fst data)"
  shows "\<not> strict_neq (readRate old k) (readRate data k)"
proof -
  have "map_of old k = None" "map_of data k = None"
    using assms by (simp_all add: map_of_eq_None_iff)
  then show ?thesis by (simp add: readRate_def)
qed

lemma set_changedCodes:
  "set (changedCodes old data) = {k. strict_neq (readRate old k) (readRate data k)}"
proof -
  have "set (changedCodes old data) =
     {k. (k \<in> set (map fst old) \<or> k \<in> set (map fst data))
         \<and> strict_neq (readRate old k) (readRate data k)}"
    unfolding set_changedCodes_keys using strict_neq_sym by auto
  also have "\<dots> = {k. strict_neq (readRate old k) (readRate data k)}"
    using strict_neq_no_key by blast
  finally show ?thesis .
qed

lemma finite_lookup:
  assumes "list_all (\<lambda>kv. isFinite (snd kv)) t" and "map_of t k = Some v"
  shows "isFinite v"
proof -
  have "(k, v) \<in> set t" using assms(2) by (rule map_of_SomeD)
  then show ?thesis using assms(1) by (auto simp add: list_all_iff)
qed

lemma isFinite_not_NaN: "isFinite v \<Longrightarrow> v \<noteq> NaN"
  by (cases v) simp_all

lemma strict_neq_finite:
  assumes "list_all (\<lambda>kv. isFinite (snd kv)) old" and "list_all (\<lambda>kv. isFinite (snd kv)) data"
  shows "strict_neq (readRate old k) (readRate data k) = (map_of old k \<noteq> map_of data k)"
proof (cases "map_of old k")
  case None
  then show ?thesis by (cases "map_of data k") (simp_all add: readRate_def)
next
  case (Some a)
  note a = this
  show ?thesis
  proof (cases "map_of data k")
    case None
    then show ?thesis using a by (simp add: readRate_def)
  next
    case (Some b)
    have "a \<noteq> NaN" using finite_lookup [OF assms(1) a] isFinite_not_NaN by blast
    moreover have "b \<noteq> NaN" using finite_lookup [OF assms(2) Some] isFinite_not_NaN by blast
    ultimately show ?thesis using a Some by (simp add: readRate_def)
  qed
qed

lemma filter_global_map:
  "filter isGlobalChange (map (\<lambda>cur. ExchangeRateChangeCode cur (p cur)) xs) = []"
  by (induction xs) simp_all

lemma filter_code_map:
  "distinct xs \<Longrightarrow>
   filter (isChangeOf k) (map (\<lambda>cur. ExchangeRateChangeCode cur (p cur)) xs)
     = (if k \<in> set xs then [ExchangeRateChangeCode k (p k)] else [])"
  by (induction xs) auto

lemma prevRate_own:
  "map_of old k = Some n \<Longrightarrow> prevRate old k = (if isFinite n then JNum n else JNull)"
  by (cases n) (simp_all add: prevRate_def readRate_def)

lemma prevRate_missing:
  "map_of old k = None \<Longrightarrow> k \<notin> set objectPrototypeProps \<Longrightarrow> prevRate old k = JUndefined"
  by (simp add: prevRate_def readRate_def)

lemma example_fetch:
  "fetchExchangeRates_done exampleRegistry [(''USD'', Fin 2), (''BTC'', Fin 1)]
       [(''USD'', Fin 3), (''EUR'', Fin 4)]
     = ([(''USD'', Fin 3), (''EUR'', Fin 4), (''BTC'', Fin 1)],
        [ExchangeRateChange [''USD'', ''BTC'', ''EUR''],
         ExchangeRateChangeCode ''USD'' (JNum (Fin 2)),
         ExchangeRateChangeCode ''BTC'' (JNum (Fin 1)),
         ExchangeRateChangeCode ''EUR'' JUndefined])"
  by (simp add: fetchExchangeRates_done_def changedCodes_def setAdd_def prevRate_def
      readRate_def objectPrototypeProps_def
      pivotCoin_def coinKey_def exampleRegistry_def Let_def)

lemma example_fetch_same:
  "fetchExchangeRates_done exampleRegistry [(''USD'', Fin 2), (''BTC'', Fin 1)] [(''USD'', Fin 2)]
     = ([(''USD'', Fin 2), (''BTC'', Fin 1)],
        [ExchangeRateChange [''BTC''], ExchangeRateChangeCode ''BTC'' (JNum (Fin 1))])"
  by (simp add: fetchExchangeRates_done_def changedCodes_def setAdd_def prevRate_def
      readRate_def objectPrototypeProps_def
      pivotCoin_def coinKey_def exampleRegistry_def Let_def)

lemma example_fetch_infinite:
  "fetchExchangeRates_done exampleRegistry [(''USD'', PInf)] [(''USD'', Fin 5)]
     = ([(''USD'', Fin 5), (''BTC'', Fin 1)],
        [ExchangeRateChange [''USD''], ExchangeRateChangeCode ''USD'' JNull])"
  by (simp add: fetchExchangeRates_done_def changedCodes_def setAdd_def prevRate_def
      readRate_def objectPrototypeProps_def
      pivotCoin_def coinKey_def exampleRegistry_def Let_def)

text \<open>
  C7, as stated, fails. The old cache is compared with the table as fetched, before the
  pivot coin is set: with the old cache \<open>{USD: 2, BTC: 1}\<close>, the fetched table
  \<open>{USD: 2}\<close> and the pivot coin BTC, the new cache is again \<open>{USD: 2, BTC: 1}\<close>, no key
  differs between the old and the new table, and yet \<open>exchange-rate-change\<close> and
  \<open>exchange-rate-change-BTC\<close> are triggered. And the previous value is carried as the
  JSON copy of the old cache gives it: with the old cache \<open>{USD: Infinity}\<close> and the
  fetched table \<open>{USD: 5}\<close>, \<open>exchange-rate-change-USD\<close> carries \<open>null\<close>.
\<close>

theorem fetchExchangeRates_done_counterexample:
  "fetchExchangeRates_done exampleRegistry [(''USD'', Fin 2), (''BTC'', Fin 1)] [(''USD'', Fin 2)]
     = ([(''USD'', Fin 2), (''BTC'', Fin 1)],
        [ExchangeRateChange [''BTC''], ExchangeRateChangeCode ''BTC'' (JNum (Fin 1))])
   \<and> fst (fetchExchangeRates_done exampleRegistry [(''USD'', Fin 2), (''BTC'', Fin 1)]
            [(''USD'', Fin 2)]) = [(''USD'', Fin 2), (''BTC'', Fin 1)]
   \<and> filter isGlobalChange
        (snd (fetchExchangeRates_done exampleRegistry [(''USD'', Fin 2), (''BTC'', Fin 1)]
                [(''USD'', Fin 2)])) \<noteq> []
   \<and> fetchExchangeRates_done exampleRegistry [(''USD'', PInf)] [(''USD'', Fin 5)]
     = ([(''USD'', Fin 5), (''BTC'', Fin 1)],
        [ExchangeRateChange [''USD''], ExchangeRateChangeCode ''USD'' JNull])
   \<and> JNull \<noteq> JNum PInf"
  by (simp add: example_fetch_same example_fetch_infinite)

text \<open>
  C7, amended. On a successful fetch the cache is replaced by the fetched table with the
  pivot coin set to 1. The changed codes are exactly the keys whose read from the old
  cache differs (\<open>!==\<close>) from the read from the table as fetched, each once. One
  \<open>exchange-rate-change\<close> event is triggered if there is such a key and none otherwise,
  and for every code one \<open>exchange-rate-change-<code>\<close> event is triggered if the code
  changed, and none otherwise; it carries the JSON copy of the code's previous value: the
  rate itself when it was finite, \<open>null\<close> when it was not, \<open>undefined\<close> when the old
  cache had no such property. For rates that are finite numbers, a code changed exactly
  when the old cache and the fetched table differ at it.
\<close>

theorem fetchExchangeRates_done_events:
  assumes res: "fetchExchangeRates_done reg exchangeRates data = (exchangeRates', evs)"
  shows "exchangeRates' = AList.update (coinKey (pivotCoin reg)) (Fin 1) data
    \<and> map_of exchangeRates' = (map_of data)(coinKey (pivotCoin reg) \<mapsto> Fin 1)
    \<and> distinct (changedCodes exchangeRates data)
    \<and> set (changedCodes exchangeRates data)
        = {k. strict_neq (readRate exchangeRates k) (readRate data k)}
    \<and> filter isGlobalChange evs =
        (if \<exists>k. strict_neq (readRate exchangeRates k) (readRate data k)
         then [ExchangeRateChange (changedCodes exchangeRates data)] else [])
    \<and> (\<forall>k. filter (isChangeOf k) evs =
          (if strict_neq (readRate exchangeRates k) (readRate data k)
           then [ExchangeRateChangeCode k (prevRate exchangeRates k)] else []))
    \<and> (\<forall>k n. map_of exchangeRates k = Some n \<longrightarrow>
          prevRate exchangeRates k = (if isFinite n then JNum n else JNull))
    \<and> (\<forall>k. map_of exchangeRates k = None \<and> k \<notin> set objectPrototypeProps \<longrightarrow>
          prevRate exchangeRates k = JUndefined)
    \<and> (list_all (\<lambda>kv. isFinite (snd kv)) exchangeRates
        \<and> list_all (\<lambda>kv. isFinite (snd kv)) data \<longrightarrow>
          (\<forall>k. strict_neq (readRate exchangeRates k) (readRate data k)
                 = (map_of exchangeRates k \<noteq> map_of data k)))"
proof -
  let ?changed = "changedCodes exchangeRates data"
  let ?D = "\<lambda>k. strict_neq (readRate exchangeRates k) (readRate data k)"
  have new: "exchangeRates' = AList.update (coinKey (pivotCoin reg)) (Fin 1) data"
    using res by (simp add: fetchExchangeRates_done_def Let_def)
  have evs: "evs = (if ?changed \<noteq> [] then
                      ExchangeRateChange ?changed
                        # map (\<lambda>cur. ExchangeRateChangeCode cur (prevRate exchangeRates cur)) ?changed
                    else [])"
    using res by (simp add: fetchExchangeRates_done_def Let_def)
  have lookup: "map_of exchangeRates' = (map_of data)(coinKey (pivotCoin reg) \<mapsto> Fin 1)"
    unfolding new by (rule update_conv')
  have dist: "distinct ?changed" by (rule distinct_changedCodes)
  have cset: "set ?changed = {k. ?D k}" by (rule set_changedCodes)
  have nonempty: "(?changed \<noteq> []) = (\<exists>k. ?D k)"
  proof -
    have "(?changed \<noteq> []) = (set ?changed \<noteq> {})" by simp
    also have "\<dots> = (\<exists>k. ?D k)" unfolding cset by blast
    finally show ?thesis .
  qed
  have glob: "filter isGlobalChange evs =
        (if \<exists>k. ?D k then [ExchangeRateChange ?changed] else [])"
    unfolding evs nonempty [symmetric] by (simp add: filter_global_map)
  have code: "filter (isChangeOf k) evs =
          (if ?D k then [ExchangeRateChangeCode k (prevRate exchangeRates k)] else [])" for k
  proof (cases "?changed = []")
    case True
    then have "set ?changed = {}" by simp
    then have "\<not> ?D k" unfolding cset by blast
    then show ?thesis unfolding evs using True by simp
  next
    case False
    have "filter (isChangeOf k) evs =
        filter (isChangeOf k)
          (map (\<lambda>cur. ExchangeRateChangeCode cur (prevRate exchangeRates cur)) ?changed)"
      unfolding evs using False by simp
    also have "\<dots> = (if k \<in> set ?changed
                      then [ExchangeRateChangeCode k (prevRate exchangeRates k)] else [])"
      by (rule filter_code_map [OF dist])
    also have "\<dots> = (if ?D k then [ExchangeRateChangeCode k (prevRate exchangeRates k)] else [])"
      unfolding cset by simp
    finally show ?thesis .
  qed
  have prev: "\<forall>k n. map_of exchangeRates k = Some n \<longrightarrow>
          prevRate exchangeRates k = (if isFinite n then JNum n else JNull)"
    using prevRate_own by blast
  have prevnone: "\<forall>k. map_of exchangeRates k = None \<and> k \<notin> set objectPrototypeProps \<longrightarrow>
          prevRate exchangeRates k = JUndefined"
    using prevRate_missing by blast
  have fin: "list_all (\<lambda>kv. isFinite (snd kv)) exchangeRates
        \<and> list_all (\<lambda>kv. isFinite (snd kv)) data \<longrightarrow>
          (\<forall>k. ?D k = (map_of exchangeRates k \<noteq> map_of data k))"
    using strict_neq_finite by blast
  from new lookup dist cset glob code prev prevnone fin show ?thesis by blast
qed

theorem fetchExchangeRates_done_events_witness:
  "fetchExchangeRates_done exampleRegistry [(''USD'', Fin 2), (''BTC'', Fin 1)]
       [(''USD'', Fin 3), (''EUR'', Fin 4)]
     = ([(''USD'', Fin 3), (''EUR'', Fin 4), (''BTC'', Fin 1)],
        [ExchangeRateChange [''USD'', ''BTC'', ''EUR''],
         ExchangeRateChangeCode ''USD'' (JNum (Fin 2)),
         ExchangeRateChangeCode ''BTC'' (JNum (Fin 1)),
         ExchangeRateChangeCode ''EUR'' JUndefined])
   \<and> list_all (\<lambda>kv. isFinite (snd kv)) [(''USD'', Fin 2), (''BTC'', Fin 1)]
   \<and> list_all (\<lambda>kv. isFinite (snd kv)) [(''USD'', Fin 3), (''EUR'', Fin 4)]
   \<and> set (changedCodes [(''USD'', Fin 2), (''BTC'', Fin 1)] [(''USD'', Fin 3), (''EUR'', Fin 4)])
       = {k. map_of [(''USD'', Fin 2), (''BTC'', Fin 1)] k
              \<noteq> map_of [(''USD'', Fin 3), (''EUR'', Fin 4)] k}"
proof -
  have f1: "list_all (\<lambda>kv. isFinite (snd kv)) [(''USD'', Fin 2), (''BTC'', Fin 1)]" by simp
  have f2: "list_all (\<lambda>kv. isFinite (snd kv)) [(''USD'', Fin 3), (''EUR'', Fin 4)]" by simp
  note t = fetchExchangeRates_done_events [OF example_fetch]
  have s: "set (changedCodes [(''USD'', Fin 2), (''BTC'', Fin 1)] [(''USD'', Fin 3), (''EUR'', Fin 4)])
        = {k. strict_neq (readRate [(''USD'', Fin 2), (''BTC'', Fin 1)] k)
                (readRate [(''USD'', Fin 3), (''EUR'', Fin 4)] k)}"
    using t by blast
  have e: "\<forall>k. strict_neq (readRate [(''USD'', Fin 2), (''BTC'', Fin 1)] k)
                (readRate [(''USD'', Fin 3), (''EUR'', Fin 4)] k)
             = (map_of [(''USD'', Fin 2), (''BTC'', Fin 1)] k
                 \<noteq> map_of [(''USD'', Fin 3), (''EUR'', Fin 4)] k)"
    using t f1 f2 by blast
  have "set (changedCodes [(''USD'', Fin 2), (''BTC'', Fin 1)] [(''USD'', Fin 3), (''EUR'', Fin 4)])
       = {k. map_of [(''USD'', Fin 2), (''BTC'', Fin 1)] k
              \<noteq> map_of [(''USD'', Fin 3), (''EUR'', Fin 4)] k}"
    unfolding s using e by simp
  with f1 f2 example_fetch show ?thesis by blast
qed

section \<open>Properties of the display decimals\<close>

declare getMaxDisplayDigits_loop.simps [simp del]

lemma loop_ge: "mx \<le> getMaxDisplayDigits_loop Z mx"
proof (induction Z mx rule: getMaxDisplayDigits_loop.induct)
  case (1 Z mx)
  show ?case
  proof (cases "Z mx \<and> mx < MAX_NUMBER_FORMAT_DISPLAY_DECIMALS")
    case True
    then have "Suc mx \<le> getMaxDisplayDigits_loop Z (Suc mx)" using "1.IH" by simp
    then show ?thesis using True by (subst getMaxDisplayDigits_loop.simps) simp
  next
    case False
    then show ?thesis by (subst getMaxDisplayDigits_loop.simps) auto
  qed
qed

lemma loop_le_max:
  "mx \<le> MAX_NUMBER_FORMAT_DISPLAY_DECIMALS \<Longrightarrow>
   getMaxDisplayDigits_loop Z mx \<le> MAX_NUMBER_FORMAT_DISPLAY_DECIMALS"
proof (induction Z mx rule: getMaxDisplayDigits_loop.induct)
  case (1 Z mx)
  show ?case
  proof (cases "Z mx \<and> mx < MAX_NUMBER_FORMAT_DISPLAY_DECIMALS")
    case True
    then have "getMaxDisplayDigits_loop Z (Suc mx) \<le> MAX_NUMBER_FORMAT_DISPLAY_DECIMALS"
      using "1.IH" by simp
    then show ?thesis using True by (subst getMaxDisplayDigits_loop.simps) simp
  next
    case False
    then show ?thesis using "1.prems" by (subst getMaxDisplayDigits_loop.simps) auto
  qed
qed

lemma loop_skipped_zero:
  "mx \<le> k \<Longrightarrow> k < getMaxDisplayDigits_loop Z mx \<Longrightarrow> Z k"
proof (induction Z mx rule: getMaxDisplayDigits_loop.induct)
  case (1 Z mx)
  show ?case
  proof (cases "Z mx \<and> mx < MAX_NUMBER_FORMAT_DISPLAY_DECIMALS")
    case True
    then have eq: "getMaxDisplayDigits_loop Z mx = getMaxDisplayDigits_loop Z (Suc mx)"
      by (subst getMaxDisplayDigits_loop.simps) simp
    show ?thesis
    proof (cases "k = mx")
      case True
      then show ?thesis using \<open>Z mx \<and> mx < MAX_NUMBER_FORMAT_DISPLAY_DECIMALS\<close> by simp
    next
      case False
      then have "Suc mx \<le> k" using "1.prems"(1) by simp
      moreover have "k < getMaxDisplayDigits_loop Z (Suc mx)" using "1.prems"(2) eq by simp
      ultimately show ?thesis using "1.IH" True by simp
    qed
  next
    case False
    then have "getMaxDisplayDigits_loop Z mx = mx"
      by (subst getMaxDisplayDigits_loop.simps) auto
    then show ?thesis using "1.prems" by simp
  qed
qed

lemma loop_stops_nonzero:
  "getMaxDisplayDigits_loop Z mx < MAX_NUMBER_FORMAT_DISPLAY_DECIMALS \<Longrightarrow>
   \<not> Z (getMaxDisplayDigits_loop Z mx)"
proof (induction Z mx rule: getMaxDisplayDigits_loop.induct)
  case (1 Z mx)
  show ?case
  proof (cases "Z mx \<and> mx < MAX_NUMBER_FORMAT_DISPLAY_DECIMALS")
    case True
    then have eq: "getMaxDisplayDigits_loop Z mx = getMaxDisplayDigits_loop Z (Suc mx)"
      by (subst getMaxDisplayDigits_loop.simps) simp
    then show ?thesis using "1.IH" "1.prems" True by simp
  next
    case False
    then have eq: "getMaxDisplayDigits_loop Z mx = mx"
      by (subst getMaxDisplayDigits_loop.simps) auto
    then show ?thesis using False "1.prems" by simp
  qed
qed

lemma loop_above_max:
  "MAX_NUMBER_FORMAT_DISPLAY_DECIMALS \<le> mx \<Longrightarrow> getMaxDisplayDigits_loop Z mx = mx"
  by (subst getMaxDisplayDigits_loop.simps) simp

lemma num_gt_zero_not_zero: "num_gt_zero amount \<Longrightarrow> JNum amount \<noteq> JNum (Fin 0)"
  by (cases amount) auto

lemma ex_zero_max:
  "formatCurrency_maxDisplayDecimals examplePreciseRound Fin (Fin (1 / 10 ^ 8)) 0 None = Inr 0"
  by (simp add: formatCurrency_maxDisplayDecimals_def getMaxDisplayDigits_def
      MAX_NUMBER_FORMAT_DISPLAY_DECIMALS_def)

lemma ex_negative:
  "formatCurrency_maxDisplayDecimals examplePreciseRound Fin (Fin (- 1 / 10 ^ 8)) 2 None = Inr 2"
  by (simp add: formatCurrency_maxDisplayDecimals_def getMaxDisplayDigits_def
      MAX_NUMBER_FORMAT_DISPLAY_DECIMALS_def)

lemma ex_negative_zero:
  "isFormattedResultZero examplePreciseRound Fin (JNum (Fin (- 1 / 10 ^ 8))) 2"
  by (simp add: isFormattedResultZero_def round_dp_def round_half_up_def)

lemma ex_loop:
  "formatCurrency_maxDisplayDecimals examplePreciseRound Fin (Fin (1 / 10 ^ 3)) 2 None = Inr 3"
  by (simp add: formatCurrency_maxDisplayDecimals_def getMaxDisplayDigits_def
      MAX_NUMBER_FORMAT_DISPLAY_DECIMALS_def isFormattedResultZero_def round_dp_def
      round_half_up_def getMaxDisplayDigits_loop.simps [of _ 2]
      getMaxDisplayDigits_loop.simps [of _ 3])

lemma ex_small_nonzero:
  "\<not> isFormattedResultZero examplePreciseRound Fin (JNum (Fin (1 / 10 ^ 8))) 8"
  by (simp add: isFormattedResultZero_def round_dp_def round_half_up_def)

text \<open>
  C3, as stated, fails in two ways. A chosen maximum of 0 is never raised: for the
  amount \<open>0.00000001\<close> with \<open>maxDisplayDecimals: 0\<close> the display is zero and the maximum
  stays 0, although 8 decimals would show the amount. And only an amount greater than
  zero is extended: for \<open>-0.00000001\<close> with \<open>maxDisplayDecimals: 2\<close> the rounded display
  is zero and the maximum stays 2.
\<close>

theorem formatCurrency_extends_counterexample:
  "num_truthy (Fin (1 / 10 ^ 8))
   \<and> isFormattedResultZero examplePreciseRound Fin (JNum (Fin (1 / 10 ^ 8))) 0
   \<and> \<not> isFormattedResultZero examplePreciseRound Fin (JNum (Fin (1 / 10 ^ 8))) 8
   \<and> formatCurrency_maxDisplayDecimals examplePreciseRound Fin (Fin (1 / 10 ^ 8)) 0 None = Inr 0
   \<and> num_truthy (Fin (- 1 / 10 ^ 8))
   \<and> isFormattedResultZero examplePreciseRound Fin (JNum (Fin (- 1 / 10 ^ 8))) 2
   \<and> formatCurrency_maxDisplayDecimals examplePreciseRound Fin (Fin (- 1 / 10 ^ 8)) 2 None = Inr 2"
  using ex_zero_max ex_negative ex_negative_zero ex_small_nonzero
  by (simp add: isFormattedResultZero_def)

text \<open>
  C3, amended. For every amount greater than zero, when \<open>formatCurrency\<close> runs with
  \<open>extendMaxDecimalsOnZero\<close> true and a chosen maximum of display decimals other than 0,
  the maximum handed to the number format is at most 20; every maximum from the chosen
  one up to (not including) the final one makes the rounded display zero, so the maximum
  is raised one step at a time and only while the display is zero; and a final maximum
  below 20 makes the rounded display nonzero. In particular, with
  \<open>maxDisplayDecimals: 2\<close> an amount whose display at 8 decimals is nonzero (such as
  \<open>0.00000001\<close>) gets a maximum of at most 8 at which its display is nonzero.
\<close>

theorem formatCurrency_extends_decimals:
  assumes pos: "num_gt_zero amount"
    and ext: "truthy (case optExtend of None \<Rightarrow> JBool True | Some v \<Rightarrow> v)"
    and nz: "desiredMax \<noteq> 0"
  shows "\<exists>m. formatCurrency_maxDisplayDecimals preciseRound fl amount desiredMax optExtend = Inr m
    \<and> m \<le> MAX_NUMBER_FORMAT_DISPLAY_DECIMALS
    \<and> (desiredMax \<le> MAX_NUMBER_FORMAT_DISPLAY_DECIMALS \<longrightarrow> desiredMax \<le> m)
    \<and> (\<forall>k. desiredMax \<le> k \<and> k < m \<longrightarrow> isFormattedResultZero preciseRound fl (JNum amount) k)
    \<and> (m < MAX_NUMBER_FORMAT_DISPLAY_DECIMALS \<longrightarrow>
          \<not> isFormattedResultZero preciseRound fl (JNum amount) m)
    \<and> (desiredMax = 2 \<and> \<not> isFormattedResultZero preciseRound fl (JNum amount) 8 \<longrightarrow>
          m \<le> 8 \<and> \<not> isFormattedResultZero preciseRound fl (JNum amount) m)"
proof -
  let ?Z = "isFormattedResultZero preciseRound fl (JNum amount)"
  let ?l = "getMaxDisplayDigits_loop ?Z desiredMax"
  let ?m = "if MAX_NUMBER_FORMAT_DISPLAY_DECIMALS < ?l then MAX_NUMBER_FORMAT_DISPLAY_DECIMALS else ?l"
  have g: "getMaxDisplayDigits preciseRound fl (JNum amount) desiredMax = Inr ?l"
    using nz num_gt_zero_not_zero [OF pos] by (simp add: getMaxDisplayDigits_def)
  have r: "formatCurrency_maxDisplayDecimals preciseRound fl amount desiredMax optExtend = Inr ?m"
    using pos ext by (simp add: formatCurrency_maxDisplayDecimals_def g)
  have le: "?m \<le> MAX_NUMBER_FORMAT_DISPLAY_DECIMALS" by simp
  have ge: "desiredMax \<le> MAX_NUMBER_FORMAT_DISPLAY_DECIMALS \<longrightarrow> desiredMax \<le> ?m"
    using loop_ge [of desiredMax ?Z] by simp
  have ml: "?m \<le> ?l" by simp
  have skipped: "\<forall>k. desiredMax \<le> k \<and> k < ?m \<longrightarrow> ?Z k"
  proof (intro allI impI)
    fix k assume k: "desiredMax \<le> k \<and> k < ?m"
    then have "k < ?l" using ml by linarith
    then show "?Z k" using k loop_skipped_zero [of desiredMax k ?Z] by blast
  qed
  have stop: "?m < MAX_NUMBER_FORMAT_DISPLAY_DECIMALS \<longrightarrow> \<not> ?Z ?m"
  proof
    assume a: "?m < MAX_NUMBER_FORMAT_DISPLAY_DECIMALS"
    then have "?m = ?l" by (simp split: if_splits)
    then show "\<not> ?Z ?m" using a loop_stops_nonzero [of ?Z desiredMax] by simp
  qed
  have inst: "desiredMax = 2 \<and> \<not> ?Z 8 \<longrightarrow> ?m \<le> 8 \<and> \<not> ?Z ?m"
  proof
    assume a: "desiredMax = 2 \<and> \<not> ?Z 8"
    have m8: "?m \<le> 8"
    proof (rule ccontr)
      assume "\<not> ?m \<le> 8"
      then have "desiredMax \<le> 8 \<and> 8 < ?m" using a by simp
      then have "?Z 8" using skipped by blast
      then show False using a by simp
    qed
    then have "?m < MAX_NUMBER_FORMAT_DISPLAY_DECIMALS"
      by (simp add: MAX_NUMBER_FORMAT_DISPLAY_DECIMALS_def)
    then show "?m \<le> 8 \<and> \<not> ?Z ?m" using m8 stop by blast
  qed
  from r le ge skipped stop inst show ?thesis by blast
qed

theorem formatCurrency_extends_decimals_witness:
  "num_gt_zero (Fin (1 / 10 ^ 3)) \<and> (2::nat) \<noteq> 0
   \<and> formatCurrency_maxDisplayDecimals examplePreciseRound Fin (Fin (1 / 10 ^ 3)) 2 None = Inr 3
   \<and> \<not> isFormattedResultZero examplePreciseRound Fin (JNum (Fin (1 / 10 ^ 3))) 3"
proof -
  have h1: "num_gt_zero (Fin (1 / 10 ^ 3))" by simp
  have h2: "truthy (case None of None \<Rightarrow> JBool True | Some v \<Rightarrow> v)" by simp
  have h3: "(2::nat) \<noteq> 0" by simp
  from formatCurrency_extends_decimals [OF h1 h2 h3, of examplePreciseRound Fin]
  obtain m where m:
    "formatCurrency_maxDisplayDecimals examplePreciseRound Fin (Fin (1 / 10 ^ 3)) 2 None = Inr m"
    "m < MAX_NUMBER_FORMAT_DISPLAY_DECIMALS \<longrightarrow>
       \<not> isFormattedResultZero examplePreciseRound Fin (JNum (Fin (1 / 10 ^ 3))) m"
    by blast
  have "m = 3" using m(1) ex_loop by simp
  then have "\<not> isFormattedResultZero examplePreciseRound Fin (JNum (Fin (1 / 10 ^ 3))) 3"
    using m(2) by (simp add: MAX_NUMBER_FORMAT_DISPLAY_DECIMALS_def)
  with h1 h3 ex_loop show ?thesis by blast
qed

end
